theory Spec2Isabelle
  imports Main "HOL-Library.Finite_Map"
begin

section \<open>Values, exceptions and strings of the Python program\<close>

text \<open>
  The program under study is \<^verbatim>\<open>html2md.py\<close>. Python strings are modelled as
  \<^typ>\<open>string\<close>; a character stands for the code point of the same number, so the
  model covers strings whose code points are below 256. In that range the regular
  expression classes the program uses are finite and are written out below.

  A value loaded by \<^verbatim>\<open>json.load\<close> is a \<open>json\<close>; an object is a finite map,
  as the \<^verbatim>\<open>dict\<close> it is loaded into. Floating point numbers are kept as the
  rationals they denote.
\<close>

datatype json =
    JNull
  | JBool bool
  | JInt int
  | JFloat rat
  | JStr string
  | JList "json list"
  | JDict "(string, json) fmap"

text \<open>The exceptions that the modelled code can raise or let through; all of them are
  subclasses of \<^verbatim>\<open>Exception\<close>. Signals and interrupts are outside the model.\<close>

datatype exn =
    KeyError string
  | TypeError
  | EOFError
  | AttributeError
  | ValueError
  | OverflowError
  | OSError string
  | ApiError string

text \<open>\<^verbatim>\<open>s.split(sep)\<close> for a one-character separator: never an empty list.\<close>

fun split_on :: "char \<Rightarrow> string \<Rightarrow> string list" where
  "split_on sep [] = [[]]"
| "split_on sep (c # cs) =
     (if c = sep then [] # split_on sep cs
      else (case split_on sep cs of
              piece # pieces \<Rightarrow> (c # piece) # pieces
            | [] \<Rightarrow> [[c]]))"

section \<open>Config\<close>

text \<open>\<^verbatim>\<open>isinstance(value, dict)\<close>, \<^verbatim>\<open>k in value\<close> (evaluated on a dict only,
  by the short-circuit of \<^verbatim>\<open>and\<close>) and \<^verbatim>\<open>value[k]\<close> for a string \<open>k\<close>.\<close>

fun isinstance_dict :: "json \<Rightarrow> bool" where
  "isinstance_dict (JDict d) = True"
| "isinstance_dict _ = False"

fun contains_key :: "json \<Rightarrow> string \<Rightarrow> bool" where
  "contains_key (JDict d) k = (fmlookup d k \<noteq> None)"
| "contains_key _ k = False"

fun subscript :: "json \<Rightarrow> string \<Rightarrow> exn + json" where
  "subscript (JDict d) k = (case fmlookup d k of None \<Rightarrow> Inl (KeyError k) | Some v \<Rightarrow> Inr v)"
| "subscript _ k = Inl TypeError"

text \<open>The loop of \<^verbatim>\<open>Config.get\<close>: \<open>value\<close> is the loop variable, the early
  \<^verbatim>\<open>return default\<close> ends the recursion.\<close>

fun get_loop :: "json \<Rightarrow> string list \<Rightarrow> json \<Rightarrow> exn + json" where
  "get_loop value [] dflt = Inr value"
| "get_loop value (k # keys) dflt =
     (if isinstance_dict value \<and> contains_key value k
      then (case subscript value k of
              Inl e \<Rightarrow> Inl e
            | Inr v \<Rightarrow> get_loop v keys dflt)
      else Inr dflt)"

definition Config_get :: "json \<Rightarrow> string \<Rightarrow> json \<Rightarrow> exn + json" where
  "Config_get config key dflt = get_loop config (split_on CHR ''.'' key) dflt"

text \<open>The traversal in the words of the specification: follow the nested mappings
  segment by segment; there is no value when a segment is missing or when the value
  reached so far is not a mapping.\<close>

fun reach :: "json \<Rightarrow> string list \<Rightarrow> json option" where
  "reach v [] = Some v"
| "reach (JDict d) (k # ks) = (case fmlookup d k of None \<Rightarrow> None | Some v \<Rightarrow> reach v ks)"
| "reach _ (k # ks) = None"

definition segments :: "string \<Rightarrow> string list" where
  "segments key = split_on CHR ''.'' key"

section \<open>Strings: the library functions the program calls\<close>

text \<open>\<^verbatim>\<open>\s\<close> of the module \<^verbatim>\<open>re\<close> and \<^verbatim>\<open>str.isspace\<close> agree below code point 256:
  tab, line feed, vertical tab, form feed, carriage return, the separators 28 to 31,
  the space, next line (133) and the no-break space (160).\<close>

definition is_space :: "char \<Rightarrow> bool" where
  "is_space c = ((of_char c :: nat) \<in> {9, 10, 11, 12, 13, 28, 29, 30, 31, 32, 133, 160})"

text \<open>\<^verbatim>\<open>s.rfind(c)\<close>: the last index of \<open>c\<close>, \<open>None\<close> for Python's \<open>-1\<close>.\<close>

fun rfind :: "char \<Rightarrow> string \<Rightarrow> nat option" where
  "rfind c [] = None"
| "rfind c (x # xs) =
     (case rfind c xs of
        Some i \<Rightarrow> Some (Suc i)
      | None \<Rightarrow> (if x = c then Some 0 else None))"

text \<open>\<^verbatim>\<open>Path(p).name\<close> and \<^verbatim>\<open>Path(p).stem\<close> of \<^verbatim>\<open>pathlib\<close>, in the POSIX
  flavour: the parts of a path are the pieces between slashes that are neither empty
  nor a single dot; the name is the last part, or empty; the stem cuts the name at
  its last dot unless that dot is the first or the last character.\<close>

definition path_name :: "string \<Rightarrow> string" where
  "path_name p =
     (let parts = filter (\<lambda>x. x \<noteq> [] \<and> x \<noteq> ''.'') (split_on CHR ''/'' p)
      in if parts = [] then [] else last parts)"

definition path_stem :: "string \<Rightarrow> string" where
  "path_stem p =
     (let name = path_name p
      in case rfind CHR ''.'' name of
           None \<Rightarrow> name
         | Some i \<Rightarrow> (if 0 < i \<and> i < length name - 1 then take i name else name))"

text \<open>\<^verbatim>\<open>name.replace('_', ' ')\<close>.\<close>

definition replace_underscores :: "string \<Rightarrow> string" where
  "replace_underscores name = map (\<lambda>c. if c = CHR ''_'' then CHR '' '' else c) name"

text \<open>\<^verbatim>\<open>html.unescape\<close> belongs to the standard library. Its body is
  \<^verbatim>\<open>if '&' not in s: return s\<close> followed by the substitution of the character
  references, \<^verbatim>\<open>_charref.sub(_replace_charref, s)\<close>, which reads the entity tables
  of the library. The substitution is a parameter of the model.\<close>

definition html_unescape :: "(string \<Rightarrow> string) \<Rightarrow> string \<Rightarrow> string" where
  "html_unescape charref_sub s = (if CHR ''&'' \<notin> set s then s else charref_sub s)"

text \<open>The class of \<^verbatim>\<open>re.sub(r'[<>:"/\\|?*]', '', name)\<close>: the nine characters
  less-than, greater-than, colon, double quote (34), slash, backslash (92), bar,
  question mark and star.\<close>

definition unsafe_chars :: "char list" where
  "unsafe_chars = [CHR ''<'', CHR ''>'', CHR '':'', CHR 0x22, CHR ''/'', CHR 0x5C,
                   CHR ''|'', CHR ''?'', CHR ''*'']"

definition remove_unsafe :: "string \<Rightarrow> string" where
  "remove_unsafe name = filter (\<lambda>c. c \<notin> set unsafe_chars) name"

text \<open>\<^verbatim>\<open>re.sub(r'\s+', ' ', name)\<close>: every maximal run of whitespace becomes one
  space. A whitespace character followed by another one is dropped; the last one of
  a run becomes the space.\<close>

fun collapse_ws :: "string \<Rightarrow> string" where
  "collapse_ws [] = []"
| "collapse_ws [c] = [if is_space c then CHR '' '' else c]"
| "collapse_ws (c # d # cs) =
     (if is_space c
      then (if is_space d then collapse_ws (d # cs) else CHR '' '' # collapse_ws (d # cs))
      else c # collapse_ws (d # cs))"

text \<open>\<^verbatim>\<open>s.strip()\<close>.\<close>

definition strip :: "string \<Rightarrow> string" where
  "strip s = rev (dropWhile is_space (rev (dropWhile is_space s)))"

section \<open>HTMLProcessor.clean_filename\<close>

definition clean_filename :: "(string \<Rightarrow> string) \<Rightarrow> string \<Rightarrow> string" where
  "clean_filename charref_sub filename =
     (let name = path_stem filename;
          name = replace_underscores name;
          name = html_unescape charref_sub name;
          name = remove_unsafe name;
          name = strip (collapse_ws name)
      in name)"

text \<open>A name on which no step of \<open>clean_filename\<close> has anything to do: no dot, no
  slash, no underscore, no ampersand, no character of the class, no whitespace but
  single spaces between other characters.\<close>

fun single_spaced :: "string \<Rightarrow> bool" where
  "single_spaced (c # d # cs) = (\<not> (is_space c \<and> is_space d) \<and> single_spaced (d # cs))"
| "single_spaced _ = True"

definition already_clean :: "string \<Rightarrow> bool" where
  "already_clean n =
     (list_all (\<lambda>c. c \<notin> set ''./_&'' \<and> c \<notin> set unsafe_chars \<and> (is_space c \<longrightarrow> c = CHR '' '')) n
      \<and> (n = [] \<or> (\<not> is_space (hd n) \<and> \<not> is_space (last n)))
      \<and> single_spaced n)"

text \<open>The words of a string, as \<^verbatim>\<open>s.split()\<close> gives them (the maximal runs of
  characters that are not whitespace), and \<^verbatim>\<open>' '.join(words)\<close>. They say what
  collapsing and trimming whitespace comes to.\<close>

fun split_ws :: "string \<Rightarrow> string list" where
  "split_ws [] = []"
| "split_ws [c] = (if is_space c then [] else [[c]])"
| "split_ws (c # d # cs) =
     (if is_space c then split_ws (d # cs)
      else if is_space d then [c] # split_ws (d # cs)
      else (case split_ws (d # cs) of
              w # ws \<Rightarrow> (c # w) # ws
            | [] \<Rightarrow> [[c]]))"

fun join_words :: "string list \<Rightarrow> string" where
  "join_words [] = []"
| "join_words [w] = w"
| "join_words (w # v # ws) = w @ CHR '' '' # join_words (v # ws)"

text \<open>\<^verbatim>\<open>s.rstrip()\<close>, the second half of \<open>strip\<close>.\<close>

definition rstrip :: "string \<Rightarrow> string" where
  "rstrip s = rev (dropWhile is_space (rev s))"

section \<open>GeminiAPIClient\<close>

text \<open>
  A Python number: an \<^verbatim>\<open>int\<close>, a finite \<^verbatim>\<open>float\<close> (kept as the rational it
  denotes, so that products by powers of two are exact as long as they are finite), or
  one of the two infinite floats. The settings of the client are such numbers:
  \<open>max_retries\<close> is an \<^verbatim>\<open>int\<close>, as \<^verbatim>\<open>range\<close> requires; the base of the backoff and
  the rate limit are \<^verbatim>\<open>int\<close> or \<^verbatim>\<open>float\<close>. Values of other types, and the float
  that is not a number, are outside the model.
\<close>

datatype number = IntNum int | FloatNum rat | PosInf | NegInf

text \<open>Converting an \<^verbatim>\<open>int\<close> to \<^verbatim>\<open>float\<close> raises \<^verbatim>\<open>OverflowError\<close> from
  \<open>2 ^ 1024 - 2 ^ 970\<close> on, the first integer that rounds to \<open>2 ^ 1024\<close>; a float
  product is infinite from \<open>2 ^ 1024\<close> on; converting between \<^verbatim>\<open>int\<close> and \<^verbatim>\<open>str\<close>
  raises \<^verbatim>\<open>ValueError\<close> beyond 4300 digits.\<close>

definition int_to_float_bound :: int where
  "int_to_float_bound = 2 ^ 1024 - 2 ^ 970"

definition float_bound :: rat where
  "float_bound = 2 ^ 1024"

definition max_str_digits :: nat where
  "max_str_digits = 4300"

definition int_str_bound :: int where
  "int_str_bound = 10 ^ 4300"

text \<open>\<^verbatim>\<open>1 > max_rate\<close>, the test of the limiter when one unit is acquired.\<close>

fun below_one :: "number \<Rightarrow> bool" where
  "below_one (IntNum n) = (n < 1)"
| "below_one (FloatNum r) = (r < 1)"
| "below_one PosInf = False"
| "below_one NegInf = True"

text \<open>\<^verbatim>\<open>await asyncio.sleep(delay)\<close>: it returns at once when the delay is not
  positive; otherwise the delay is added to the clock of the loop, a float, which
  raises \<^verbatim>\<open>OverflowError\<close> for an \<^verbatim>\<open>int\<close> too large to convert; a timer set at
  infinity never fires.\<close>

datatype sleep_outcome = Slept | Sleep_raises exn | Sleeps_forever

fun asyncio_sleep :: "number \<Rightarrow> sleep_outcome" where
  "asyncio_sleep (IntNum n) =
     (if n \<le> 0 then Slept
      else if int_to_float_bound \<le> n then Sleep_raises OverflowError
      else Slept)"
| "asyncio_sleep (FloatNum r) = Slept"
| "asyncio_sleep PosInf = Sleeps_forever"
| "asyncio_sleep NegInf = Slept"

text \<open>\<^verbatim>\<open>base * (2 ** attempt)\<close>: exact on an \<^verbatim>\<open>int\<close>; on a float the power is
  converted to float first, which raises \<^verbatim>\<open>OverflowError\<close> from \<^verbatim>\<open>2 ** 1024\<close> on,
  and the product is infinite when it leaves the range of the floats.\<close>

definition float_value :: "rat \<Rightarrow> number" where
  "float_value p =
     (if float_bound \<le> p then PosInf else if p \<le> - float_bound then NegInf else FloatNum p)"

fun times_power_of_two :: "number \<Rightarrow> nat \<Rightarrow> exn + number" where
  "times_power_of_two (IntNum b) attempt = Inr (IntNum (b * 2 ^ attempt))"
| "times_power_of_two (FloatNum r) attempt =
     (if 1024 \<le> attempt then Inl OverflowError else Inr (float_value (r * 2 ^ attempt)))"
| "times_power_of_two PosInf attempt =
     (if 1024 \<le> attempt then Inl OverflowError else Inr PosInf)"
| "times_power_of_two NegInf attempt =
     (if 1024 \<le> attempt then Inl OverflowError else Inr NegInf)"

text \<open>Reading a setting: \<^verbatim>\<open>config.get(key, default)\<close>, which never raises.\<close>

definition setting :: "json \<Rightarrow> string \<Rightarrow> json \<Rightarrow> json" where
  "setting config key dflt = (case Config_get config key dflt of Inr v \<Rightarrow> v | Inl e \<Rightarrow> dflt)"

text \<open>The Python numbers among the loaded values; \<^verbatim>\<open>bool\<close> is a subclass of
  \<^verbatim>\<open>int\<close>.\<close>

fun read_int :: "json \<Rightarrow> int option" where
  "read_int (JInt n) = Some n"
| "read_int (JBool b) = Some (if b then 1 else 0)"
| "read_int _ = None"

fun read_number :: "json \<Rightarrow> number option" where
  "read_number (JInt n) = Some (IntNum n)"
| "read_number (JBool b) = Some (IntNum (if b then 1 else 0))"
| "read_number (JFloat r) = Some (FloatNum r)"
| "read_number _ = None"

text \<open>\<^verbatim>\<open>aiolimiter.AsyncLimiter(max_rate, 60)\<close>: the constructor divides the rate by
  the period, which raises \<^verbatim>\<open>TypeError\<close> for a value that is not a number and
  \<^verbatim>\<open>OverflowError\<close> for an \<^verbatim>\<open>int\<close> whose quotient is too large for a float;
  entering the limiter acquires one unit and raises \<^verbatim>\<open>ValueError\<close> when one unit is
  more than the rate. The waiting of the limiter is not modelled: an entry that does
  not raise is the event \<open>Acquire\<close>.\<close>

record limiter =
  max_rate :: number

fun AsyncLimiter_init :: "number \<Rightarrow> exn + limiter" where
  "AsyncLimiter_init (IntNum n) =
     (if 60 * int_to_float_bound \<le> \<bar>n\<bar> then Inl OverflowError
      else Inr \<lparr> max_rate = IntNum n \<rparr>)"
| "AsyncLimiter_init x = Inr \<lparr> max_rate = x \<rparr>"

definition limiter_of :: "json \<Rightarrow> exn + limiter" where
  "limiter_of rate_limit =
     (case read_number rate_limit of
        None \<Rightarrow> Inl TypeError
      | Some x \<Rightarrow> AsyncLimiter_init x)"

text \<open>
  The fields of the client that the conversion reads, and
  \<^verbatim>\<open>GeminiAPIClient.__init__\<close>, which sets them from the settings
  \<^verbatim>\<open>gemini.max_retries\<close>, \<^verbatim>\<open>gemini.retry_delay_base\<close> and
  \<^verbatim>\<open>processing.rate_limit_per_minute\<close> and builds the limiter. The construction of
  the library's \<^verbatim>\<open>genai.Client\<close> is taken to succeed. The constructor stores
  \<open>max_retries\<close> and \<open>retry_delay_base\<close> as they are loaded; the result is \<open>None\<close>
  when the limiter is built and \<open>max_retries\<close> is not an \<^verbatim>\<open>int\<close> or
  \<open>retry_delay_base\<close> is not a number: such a client is outside the model.
\<close>

record client =
  max_retries :: int
  retry_delay_base :: number
  rate_limiter :: limiter

definition GeminiAPIClient_init :: "json \<Rightarrow> (exn + client) option" where
  "GeminiAPIClient_init cfg =
     (let retries = setting cfg ''gemini.max_retries'' (JInt 3);
          base = setting cfg ''gemini.retry_delay_base'' (JFloat 1);
          rate_limit = setting cfg ''processing.rate_limit_per_minute'' (JInt 875)
      in case limiter_of rate_limit of
           Inl e \<Rightarrow> Some (Inl e)
         | Inr lim \<Rightarrow>
             (case read_int retries of
                None \<Rightarrow> None
              | Some n \<Rightarrow>
                  (case read_number base of
                     None \<Rightarrow> None
                   | Some b \<Rightarrow>
                       Some (Inr \<lparr> max_retries = n, retry_delay_base = b,
                                   rate_limiter = lim \<rparr>))))"

text \<open>What the remote model does at one attempt: after \<open>took\<close> seconds it returns a
  response, whose \<^verbatim>\<open>text\<close> is a string or \<^verbatim>\<open>None\<close>, or the call raises an
  exception whose \<^verbatim>\<open>str\<close> is given.\<close>

datatype api_reply =
    Returns (reply_took: rat) (reply_text: "string option")
  | Raises (reply_took: rat) (reply_error: string)

fun is_failure :: "api_reply \<Rightarrow> bool" where
  "is_failure (Raises took error_str) = True"
| "is_failure (Returns took response) = False"

text \<open>How a coroutine ends: it returns a value, it raises, or it never returns.\<close>

datatype 'a outcome = Returned 'a | Raised exn | Never_returns

text \<open>What a conversion does to the outside, in order: entering and leaving the rate
  limiter, a call of the remote model (with the time it takes), the sleep of
  \<^verbatim>\<open>_make_api_call\<close> for the delay the server suggests, and the sleep of the retry
  loop; a sleep is recorded with the delay it is called with.\<close>

datatype event =
    Acquire
  | Release
  | ApiCall rat
  | RetryDelaySleep number
  | BackoffSleep number

text \<open>\<^verbatim>\<open>sub in s\<close> on strings, and the search
  \<^verbatim>\<open>re.search(r"'retryDelay': '(\d+)s'", error_str)\<close>: the leftmost place where the
  literal is followed by a longest run of digits and then by \<^verbatim>\<open>s'\<close>; the result is
  the group, the run of digits. Below code point 256 the class \<^verbatim>\<open>\d\<close> is the ten
  digits.\<close>

fun starts_with :: "string \<Rightarrow> string \<Rightarrow> bool" where
  "starts_with [] s = True"
| "starts_with (p # ps) [] = False"
| "starts_with (p # ps) (c # cs) = (p = c \<and> starts_with ps cs)"

fun str_contains :: "string \<Rightarrow> string \<Rightarrow> bool" where
  "str_contains sub [] = (sub = [])"
| "str_contains sub (c # cs) = (starts_with sub (c # cs) \<or> str_contains sub cs)"

definition is_digit :: "char \<Rightarrow> bool" where
  "is_digit c = (48 \<le> (of_char c :: nat) \<and> (of_char c :: nat) \<le> 57)"

definition retry_delay_prefix :: "string" where
  "retry_delay_prefix = [CHR 0x27] @ ''retryDelay'' @ [CHR 0x27] @ '': '' @ [CHR 0x27]"

definition retry_delay_at :: "string \<Rightarrow> string option" where
  "retry_delay_at s =
     (if starts_with retry_delay_prefix s
      then (let rest = drop (length retry_delay_prefix) s;
                digits = takeWhile is_digit rest;
                after = dropWhile is_digit rest
            in if digits \<noteq> [] \<and> starts_with (''s'' @ [CHR 0x27]) after
               then Some digits else None)
      else None)"

fun retry_delay_search :: "string \<Rightarrow> string option" where
  "retry_delay_search [] = None"
| "retry_delay_search (c # cs) =
     (case retry_delay_at (c # cs) of
        Some digits \<Rightarrow> Some digits
      | None \<Rightarrow> retry_delay_search cs)"

text \<open>\<^verbatim>\<open>int(digits)\<close> on a run of digits.\<close>

definition int_of_digits :: "string \<Rightarrow> int" where
  "int_of_digits ds = foldl (\<lambda>n c. 10 * n + (int (of_char c) - 48)) 0 ds"

definition python_int :: "string \<Rightarrow> exn + int" where
  "python_int digits =
     (if max_str_digits < length digits then Inl ValueError else Inr (int_of_digits digits))"

text \<open>The digits of the delay that a quota error carries: the condition and the
  search of the handler in \<^verbatim>\<open>_make_api_call\<close>.\<close>

definition quota_delay :: "string \<Rightarrow> string option" where
  "quota_delay error_str =
     (if str_contains ''429'' error_str \<and> str_contains ''RESOURCE_EXHAUSTED'' error_str
      then retry_delay_search error_str
      else None)"

text \<open>\<^verbatim>\<open>_make_api_call\<close>: how it ends and the events of the call. The handler raises
  the exception of the call again, unless the conversion of the digits or the sleep
  raises first.\<close>

fun make_api_call :: "api_reply \<Rightarrow> string option outcome \<times> event list" where
  "make_api_call (Returns took response) = (Returned response, [ApiCall took])"
| "make_api_call (Raises took error_str) =
     (case quota_delay error_str of
        None \<Rightarrow> (Raised (ApiError error_str), [ApiCall took])
      | Some digits \<Rightarrow>
          (case python_int digits of
             Inl e \<Rightarrow> (Raised e, [ApiCall took])
           | Inr retry_delay \<Rightarrow>
               (case asyncio_sleep (IntNum retry_delay) of
                  Slept \<Rightarrow>
                    (Raised (ApiError error_str),
                     [ApiCall took, RetryDelaySleep (IntNum retry_delay)])
                | Sleep_raises e \<Rightarrow> (Raised e, [ApiCall took])
                | Sleeps_forever \<Rightarrow>
                    (Never_returns, [ApiCall took, RetryDelaySleep (IntNum retry_delay)]))))"

text \<open>The loop \<^verbatim>\<open>for attempt in range(self.max_retries)\<close> of
  \<^verbatim>\<open>convert_html_to_markdown\<close>, from \<open>attempt\<close> on, with \<open>left\<close> iterations to
  go. A loop that runs out without a \<^verbatim>\<open>return\<close> makes the function return
  \<^verbatim>\<open>None\<close>. The handler formats \<^verbatim>\<open>attempt + 1\<close> in its warning, then either
  sleeps the backoff delay or raises the exception again.\<close>

fun retry_loop ::
  "client \<Rightarrow> (nat \<Rightarrow> api_reply) \<Rightarrow> nat \<Rightarrow> nat \<Rightarrow> string option outcome \<times> event list" where
  "retry_loop c remote attempt 0 = (Returned None, [])"
| "retry_loop c remote attempt (Suc left) =
     (case make_api_call (remote attempt) of
        (Returned response, evs) \<Rightarrow> (Returned response, evs)
      | (Never_returns, evs) \<Rightarrow> (Never_returns, evs)
      | (Raised e, evs) \<Rightarrow>
          (if int_str_bound \<le> int attempt + 1 then (Raised ValueError, evs)
           else if int attempt < max_retries c - 1
           then (case times_power_of_two (retry_delay_base c) attempt of
                   Inl x \<Rightarrow> (Raised x, evs)
                 | Inr delay \<Rightarrow>
                     (case asyncio_sleep delay of
                        Sleep_raises x \<Rightarrow> (Raised x, evs)
                      | Sleeps_forever \<Rightarrow> (Never_returns, evs @ [BackoffSleep delay])
                      | Slept \<Rightarrow>
                          (case retry_loop c remote (Suc attempt) left of
                             (r, evs') \<Rightarrow> (r, evs @ [BackoffSleep delay] @ evs'))))
           else (Raised e, evs)))"

text \<open>\<^verbatim>\<open>convert_html_to_markdown\<close>: the loop runs inside
  \<^verbatim>\<open>async with self.rate_limiter\<close>.\<close>

definition convert_html_to_markdown ::
  "client \<Rightarrow> (nat \<Rightarrow> api_reply) \<Rightarrow> string option outcome \<times> event list" where
  "convert_html_to_markdown c remote =
     (if below_one (max_rate (rate_limiter c)) then (Raised ValueError, [])
      else (case retry_loop c remote 0 (nat (max_retries c)) of
              (Never_returns, evs) \<Rightarrow> (Never_returns, [Acquire] @ evs)
            | (r, evs) \<Rightarrow> (r, [Acquire] @ evs @ [Release])))"

text \<open>The times at which the remote calls of a trace start, on a clock that reads
  \<open>t\<close> when the trace begins and that the calls and the sleeps advance; and the
  number of starts in the 60 seconds from \<open>t\<close> on.\<close>

fun seconds :: "number \<Rightarrow> rat" where
  "seconds (IntNum n) = max 0 (of_int n)"
| "seconds (FloatNum r) = max 0 r"
| "seconds PosInf = 0"
| "seconds NegInf = 0"

fun call_starts :: "rat \<Rightarrow> event list \<Rightarrow> rat list" where
  "call_starts t [] = []"
| "call_starts t (ApiCall took # evs) = t # call_starts (t + took) evs"
| "call_starts t (RetryDelaySleep d # evs) = (if d = PosInf then [] else call_starts (t + seconds d) evs)"
| "call_starts t (BackoffSleep d # evs) = (if d = PosInf then [] else call_starts (t + seconds d) evs)"
| "call_starts t (Acquire # evs) = call_starts t evs"
| "call_starts t (Release # evs) = call_starts t evs"

definition starts_in_window :: "rat list \<Rightarrow> rat \<Rightarrow> nat" where
  "starts_in_window starts t = length (filter (\<lambda>s. t \<le> s \<and> s < t + 60) starts)"

fun backoff_sleeps :: "event list \<Rightarrow> number list" where
  "backoff_sleeps [] = []"
| "backoff_sleeps (BackoffSleep d # evs) = d # backoff_sleeps evs"
| "backoff_sleeps (ev # evs) = backoff_sleeps evs"

fun is_call :: "event \<Rightarrow> bool" where
  "is_call (ApiCall took) = True"
| "is_call _ = False"

text \<open>When the backoff delay of an attempt can be computed and slept: an \<^verbatim>\<open>int\<close>
  delay must stay below the bound of the conversion to float, a float delay needs an
  attempt below 1024 and a finite product.\<close>

fun backoff_sleepable :: "number \<Rightarrow> nat \<Rightarrow> bool" where
  "backoff_sleepable (IntNum b) attempt = (b * 2 ^ attempt < int_to_float_bound)"
| "backoff_sleepable (FloatNum r) attempt = (attempt < 1024 \<and> r * 2 ^ attempt < float_bound)"
| "backoff_sleepable PosInf attempt = False"
| "backoff_sleepable NegInf attempt = (attempt < 1024)"

text \<open>The delay \<open>base * 2 ^ attempt\<close> as a number.\<close>

fun backoff_delay :: "number \<Rightarrow> nat \<Rightarrow> number" where
  "backoff_delay (IntNum b) attempt = IntNum (b * 2 ^ attempt)"
| "backoff_delay (FloatNum r) attempt = float_value (r * 2 ^ attempt)"
| "backoff_delay PosInf attempt = PosInf"
| "backoff_delay NegInf attempt = NegInf"

text \<open>The events of one failed attempt out of \<open>n\<close>, used to state what the loop
  does: the events of the call, and the backoff sleep when another attempt follows.\<close>

definition failed_attempt :: "number \<Rightarrow> int \<Rightarrow> nat \<Rightarrow> api_reply \<Rightarrow> event list" where
  "failed_attempt base n attempt reply =
     snd (make_api_call reply)
       @ (if int attempt < n - 1 then [BackoffSleep (backoff_delay base attempt)] else [])"

text \<open>Remote models for the examples: one that fails every attempt after half a
  second, and one that answers the first attempt with a quota error carrying a
  suggested delay of seven seconds and the second attempt with a text.\<close>

definition always_failing :: "nat \<Rightarrow> api_reply" where
  "always_failing attempt = Raises (1 / 2) ''503 UNAVAILABLE''"

definition quota_error :: string where
  "quota_error = ''429 RESOURCE_EXHAUSTED {'' @ retry_delay_prefix @ ''7s'' @ [CHR 0x27] @ ''}''"

definition quota_then_text :: "nat \<Rightarrow> api_reply" where
  "quota_then_text attempt =
     (if attempt = 0 then Raises 0 quota_error else Returns 0 (Some ''## Title''))"

definition example_client :: client where
  "example_client =
     \<lparr> max_retries = 3, retry_delay_base = FloatNum 1, rate_limiter = \<lparr> max_rate = IntNum 1 \<rparr> \<rparr>"

text \<open>A configuration that sets the rate limit to 1 and leaves the rest to the
  defaults; \<open>example_client\<close> is the client built from it.\<close>

definition one_per_minute :: json where
  "one_per_minute =
     JDict (fmupd ''processing'' (JDict (fmupd ''rate_limit_per_minute'' (JInt 1) fmempty)) fmempty)"

definition no_attempts_client :: client where
  "no_attempts_client =
     \<lparr> max_retries = 0, retry_delay_base = FloatNum 1, rate_limiter = \<lparr> max_rate = IntNum 875 \<rparr> \<rparr>"

section \<open>HTML2MDConverter\<close>

text \<open>Truth of a loaded value, as \<^verbatim>\<open>if add_headers:\<close> tests it.\<close>

fun truthy :: "json \<Rightarrow> bool" where
  "truthy JNull = False"
| "truthy (JBool b) = b"
| "truthy (JInt n) = (n \<noteq> 0)"
| "truthy (JFloat r) = (r \<noteq> 0)"
| "truthy (JStr s) = (s \<noteq> [])"
| "truthy (JList xs) = (xs \<noteq> [])"
| "truthy (JDict d) = (d \<noteq> fmempty)"

text \<open>\<^verbatim>\<open>asyncio.Semaphore(value)\<close> compares the value with 0: a value that is not a
  number raises \<^verbatim>\<open>TypeError\<close>, a negative one \<^verbatim>\<open>ValueError\<close>. A semaphore is
  locked when its value equals 0; one that starts at 0 is never released, so that
  every task waits for ever.\<close>

fun is_negative :: "number \<Rightarrow> bool" where
  "is_negative (IntNum n) = (n < 0)"
| "is_negative (FloatNum r) = (r < 0)"
| "is_negative PosInf = False"
| "is_negative NegInf = True"

fun is_zero :: "number \<Rightarrow> bool" where
  "is_zero (IntNum n) = (n = 0)"
| "is_zero (FloatNum r) = (r = 0)"
| "is_zero PosInf = False"
| "is_zero NegInf = False"

definition Semaphore_init :: "json \<Rightarrow> exn + number" where
  "Semaphore_init v =
     (case read_number v of
        None \<Rightarrow> Inl TypeError
      | Some x \<Rightarrow> (if is_negative x then Inl ValueError else Inr x))"

text \<open>The converter: its configuration, its client and the initial value of its
  semaphore.\<close>

record converter =
  configuration :: json
  api_client :: client
  semaphore :: number

text \<open>
  \<^verbatim>\<open>HTML2MDConverter.__init__\<close>: the client is built first, then the semaphore.
  The result is \<open>None\<close> when the client is outside the model.
\<close>

definition HTML2MDConverter_init :: "json \<Rightarrow> (exn + converter) option" where
  "HTML2MDConverter_init cfg =
     (case GeminiAPIClient_init cfg of
        None \<Rightarrow> None
      | Some (Inl e) \<Rightarrow> Some (Inl e)
      | Some (Inr c) \<Rightarrow>
          (case Semaphore_init (setting cfg ''processing.max_concurrent'' (JInt 20)) of
             Inl e \<Rightarrow> Some (Inl e)
           | Inr sem \<Rightarrow> Some (Inr \<lparr> configuration = cfg, api_client = c, semaphore = sem \<rparr>)))"

text \<open>
  What a run meets outside the program: whether the directory exists; the paths that
  \<^verbatim>\<open>glob("*.html")\<close> yields, each with the answer of \<^verbatim>\<open>is_file()\<close> and its
  modification time; \<^verbatim>\<open>os.path.exists\<close>; the lines typed at the prompt; the clock;
  for the file at a path, the exception that reading and cleaning it raises, if any,
  the replies of the remote model to the attempts made for it, and the time at which
  its task completes; and the exception that opening the output file raises, if any.
\<close>

record world =
  dir_exists :: bool
  listing :: "(string \<times> bool \<times> rat) list"
  path_exists :: "string \<Rightarrow> bool"
  stdin :: "string list"
  clock :: nat
  prepare :: "string \<Rightarrow> exn option"
  remote_for :: "string \<Rightarrow> nat \<Rightarrow> api_reply"
  finished :: "string \<Rightarrow> rat"
  open_output :: "exn option"

text \<open>\<^verbatim>\<open>discover_html_files\<close>: the files among the matches, sorted by modification
  time with the stable sort of Python; the number of files is formatted in a log
  message.\<close>

definition discover_html_files :: "world \<Rightarrow> exn + (string \<times> rat) list" where
  "discover_html_files w =
     (if \<not> dir_exists w then Inr []
      else (let html_files =
                  sort_key snd (map (\<lambda>(p, is_file, mtime). (p, mtime))
                                    (filter (\<lambda>(p, is_file, mtime). is_file) (listing w)))
            in if int_str_bound \<le> int (length html_files) then Inl ValueError
               else Inr html_files))"

text \<open>\<^verbatim>\<open>os.path.join(a, b)\<close> and \<^verbatim>\<open>os.path.dirname(p)\<close> of \<^verbatim>\<open>posixpath\<close>, and
  \<^verbatim>\<open>str(n)\<close> for a natural number.\<close>

definition path_join :: "string \<Rightarrow> string \<Rightarrow> string" where
  "path_join a b =
     (if starts_with ''/'' b then b
      else if a = [] \<or> last a = CHR ''/'' then a @ b
      else a @ ''/'' @ b)"

definition path_dirname :: "string \<Rightarrow> string" where
  "path_dirname p =
     (let i = (case rfind CHR ''/'' p of None \<Rightarrow> 0 | Some k \<Rightarrow> Suc k);
          head = take i p
      in if head \<noteq> [] \<and> \<not> list_all (\<lambda>c. c = CHR ''/'') head
         then rev (dropWhile (\<lambda>c. c = CHR ''/'') (rev head))
         else head)"

fun str_nat :: "nat \<Rightarrow> string" where
  "str_nat n =
     (if n < 10 then [char_of (48 + n)]
      else str_nat (n div 10) @ [char_of (48 + n mod 10)])"

declare str_nat.simps [simp del]

text \<open>\<^verbatim>\<open>check_output_file\<close>: the loop reads a line at each turn; \<^verbatim>\<open>input\<close> raises
  \<^verbatim>\<open>EOFError\<close> when no line is left. The result is the path to write to, or
  \<^verbatim>\<open>None\<close> when the user cancels.\<close>

fun prompt_loop :: "string \<Rightarrow> nat \<Rightarrow> string list \<Rightarrow> exn + string option" where
  "prompt_loop output_path now [] = Inl EOFError"
| "prompt_loop output_path now (line # rest) =
     (let choice = strip line
      in if choice = ''1'' then Inr (Some output_path)
         else if choice = ''2''
         then Inr (Some (path_join (path_dirname output_path)
                           (path_stem output_path @ ''_'' @ str_nat now @ ''.md'')))
         else if choice = ''3'' then Inr None
         else prompt_loop output_path now rest)"

definition check_output_file :: "world \<Rightarrow> string \<Rightarrow> exn + string option" where
  "check_output_file w output_path =
     (if path_exists w output_path then prompt_loop output_path (clock w) (stdin w)
      else Inr (Some output_path))"

text \<open>\<^verbatim>\<open>process_file\<close>: inside the semaphore, the file is read and cleaned, converted,
  and its result is the pair of its derived title and the text.\<close>

definition process_file ::
  "(string \<Rightarrow> string) \<Rightarrow> converter \<Rightarrow> world \<Rightarrow> string \<Rightarrow> (string \<times> string option) outcome" where
  "process_file charref_sub conv w file_path =
     (if is_zero (semaphore conv) then Never_returns
      else (let filename = path_name file_path
            in case prepare w file_path of
                 Some e \<Rightarrow> Raised e
               | None \<Rightarrow>
                   (case fst (convert_html_to_markdown (api_client conv) (remote_for w file_path)) of
                      Returned markdown_content \<Rightarrow>
                        Returned (clean_filename charref_sub filename, markdown_content)
                    | Raised e \<Rightarrow> Raised e
                    | Never_returns \<Rightarrow> Never_returns)))"

text \<open>The loop over \<^verbatim>\<open>asyncio.as_completed(tasks)\<close>: the results of the tasks in the
  order in which they complete; a task that raises is logged and skipped. The loop
  does not end when a task never completes.\<close>

fun never_returns :: "'a outcome \<Rightarrow> bool" where
  "never_returns Never_returns = True"
| "never_returns _ = False"

fun collect :: "'a outcome list \<Rightarrow> 'a list" where
  "collect [] = []"
| "collect (Returned result # rest) = result # collect rest"
| "collect (Raised e # rest) = collect rest"
| "collect (Never_returns # rest) = collect rest"

definition completion_order :: "world \<Rightarrow> (string \<times> rat) list \<Rightarrow> string list" where
  "completion_order w html_files = sort_key (finished w) (map fst html_files)"

definition gather ::
  "(string \<Rightarrow> string) \<Rightarrow> converter \<Rightarrow> world \<Rightarrow> (string \<times> rat) list
     \<Rightarrow> (string \<times> string option) list outcome" where
  "gather charref_sub conv w html_files =
     (let outcomes = map (process_file charref_sub conv w) (completion_order w html_files)
      in if list_ex never_returns outcomes then Never_returns
         else Returned (collect outcomes))"

text \<open>The dictionary \<^verbatim>\<open>{result[0]: result for result in processed_files}\<close>, in which
  a later result replaces an earlier one with the same title, and the loop that builds
  \<^verbatim>\<open>ordered_results\<close>.\<close>

definition file_to_result ::
  "(string \<times> string option) list \<Rightarrow> string \<Rightarrow> (string \<times> string option) option" where
  "file_to_result processed_files = foldl (\<lambda>m result. m(fst result \<mapsto> result)) Map.empty processed_files"

definition ordered_results ::
  "(string \<Rightarrow> string) \<Rightarrow> (string \<times> rat) list \<Rightarrow> (string \<times> string option) list
     \<Rightarrow> (string \<times> string option) list" where
  "ordered_results charref_sub html_files processed_files =
     concat (map (\<lambda>(file_path, mtime).
                    case file_to_result processed_files
                           (clean_filename charref_sub (path_name file_path)) of
                      Some result \<Rightarrow> [result]
                    | None \<Rightarrow> [])
                 html_files)"

text \<open>\<^verbatim>\<open>generate_output\<close>: what is written, one piece for each \<^verbatim>\<open>f.write\<close>; the
  separator is kept as the loaded value that is formatted. \<^verbatim>\<open>content.strip()\<close> raises
  \<^verbatim>\<open>AttributeError\<close> on \<^verbatim>\<open>None\<close>, after the header of that section is written.\<close>

datatype piece = Header string | Body string | Blank | Separator json

fun write_results ::
  "bool \<Rightarrow> json \<Rightarrow> (string \<times> string option) list \<Rightarrow> exn option \<times> piece list" where
  "write_results add_headers separator [] = (None, [])"
| "write_results add_headers separator ((filename, content) # rest) =
     (case content of
        None \<Rightarrow> (Some AttributeError, (if add_headers then [Header filename] else []))
      | Some c \<Rightarrow>
          (case write_results add_headers separator rest of
             (e, pieces) \<Rightarrow>
               (e, (if add_headers then [Header filename] else [])
                     @ [Body (strip c), Blank]
                     @ (if rest \<noteq> [] then [Separator separator] else [])
                     @ pieces)))"

definition generate_output ::
  "converter \<Rightarrow> world \<Rightarrow> (string \<times> string option) list \<Rightarrow> string
     \<Rightarrow> exn option \<times> (string \<times> piece list) option" where
  "generate_output conv w results output_path =
     (let separator = setting (configuration conv) ''output.separator'' (JStr ''---'');
          add_headers = setting (configuration conv) ''output.add_headers'' (JBool True)
      in case open_output w of
           Some e \<Rightarrow> (Some e, None)
         | None \<Rightarrow>
             (case write_results (truthy add_headers) separator results of
                (e, pieces) \<Rightarrow> (e, Some (output_path, pieces))))"

text \<open>\<^verbatim>\<open>convert_directory\<close>: how the run ends and the file it has written, if any. A
  completed run reports the number of ordered results as processed and the number of
  discovered files as found.\<close>

datatype run =
    No_files
  | Cancelled
  | Completed (run_output: string) (run_results: "(string \<times> string option) list")
      (run_found: nat)

definition processed :: "run \<Rightarrow> nat" where
  "processed r = length (run_results r)"

definition convert_directory ::
  "(string \<Rightarrow> string) \<Rightarrow> converter \<Rightarrow> world \<Rightarrow> string \<Rightarrow> string
     \<Rightarrow> run outcome \<times> (string \<times> piece list) option" where
  "convert_directory charref_sub conv w directory output_name =
     (case discover_html_files w of
        Inl e \<Rightarrow> (Raised e, None)
      | Inr html_files \<Rightarrow>
          (if html_files = [] then (Returned No_files, None)
           else (case check_output_file w (path_join directory output_name) of
                   Inl e \<Rightarrow> (Raised e, None)
                 | Inr None \<Rightarrow> (Returned Cancelled, None)
                 | Inr (Some output_path) \<Rightarrow>
                     (case gather charref_sub conv w html_files of
                        Never_returns \<Rightarrow> (Never_returns, None)
                      | Raised e \<Rightarrow> (Raised e, None)
                      | Returned processed_files \<Rightarrow>
                          (let ordered = ordered_results charref_sub html_files processed_files
                           in case generate_output conv w ordered output_path of
                                (Some e, written) \<Rightarrow> (Raised e, written)
                              | (None, written) \<Rightarrow>
                                  (Returned (Completed output_path ordered (length html_files)),
                                   written))))))"

section \<open>main\<close>

text \<open>The parsed command line, and what \<^verbatim>\<open>main\<close> meets before the run: the
  configuration file (\<^verbatim>\<open>Config\<close> exits with status 1 when it is missing or is not
  JSON), the exception that \<^verbatim>\<open>setup_logging\<close> raises, if any, and the environment
  variable \<^verbatim>\<open>GEMINI_API_KEY\<close>.\<close>

record args =
  directory :: string
  api_key :: "string option"
  concurrent :: "int option"
  output_name :: string

datatype config_load = Loaded json | Not_found | Invalid_json | Load_raises exn

record host =
  config_file :: config_load
  logging_raises :: "exn option"
  env_api_key :: "string option"

text \<open>How the program ends: with the exit status of \<^verbatim>\<open>sys.exit\<close>, or 0 when
  \<^verbatim>\<open>main\<close> returns; with the traceback of an exception that nothing catches (the
  interpreter then exits with status 1); or never.\<close>

datatype ending = Exit nat | Uncaught exn | Runs_for_ever

text \<open>\<^verbatim>\<open>value[k] = v\<close> for a string \<open>k\<close>, and the override
  \<^verbatim>\<open>config.config['processing']['max_concurrent'] = args.concurrent\<close>, guarded by
  \<^verbatim>\<open>if args.concurrent:\<close>. The inner mapping is an object of the configuration, so
  that the assignment changes the configuration.\<close>

fun set_item :: "json \<Rightarrow> string \<Rightarrow> json \<Rightarrow> exn + json" where
  "set_item (JDict d) k v = Inr (JDict (fmupd k v d))"
| "set_item _ k v = Inl TypeError"

definition override :: "json \<Rightarrow> int option \<Rightarrow> exn + json" where
  "override cfg n =
     (case n of
        None \<Rightarrow> Inr cfg
      | Some value \<Rightarrow>
          (if value = 0 then Inr cfg
           else (case subscript cfg ''processing'' of
                   Inl e \<Rightarrow> Inl e
                 | Inr processing \<Rightarrow>
                     (case set_item processing ''max_concurrent'' (JInt value) of
                        Inl e \<Rightarrow> Inl e
                      | Inr processing' \<Rightarrow> set_item cfg ''processing'' processing'))))"

text \<open>\<^verbatim>\<open>args.api_key or os.getenv('GEMINI_API_KEY')\<close>, and \<^verbatim>\<open>not api_key\<close>.\<close>

definition resolve_api_key :: "string option \<Rightarrow> string option \<Rightarrow> string option" where
  "resolve_api_key from_args from_env =
     (case from_args of
        Some k \<Rightarrow> (if k \<noteq> [] then Some k else from_env)
      | None \<Rightarrow> from_env)"

definition missing_key :: "string option \<Rightarrow> bool" where
  "missing_key k = (case k of None \<Rightarrow> True | Some s \<Rightarrow> s = [])"

text \<open>\<^verbatim>\<open>main\<close>: how the program ends, and the run of \<^verbatim>\<open>convert_directory\<close> when
  there is one. The result is \<open>None\<close> when the converter is outside the model.\<close>

definition main ::
  "(string \<Rightarrow> string) \<Rightarrow> args \<Rightarrow> host \<Rightarrow> world
     \<Rightarrow> (ending \<times> (run outcome \<times> (string \<times> piece list) option) option) option" where
  "main charref_sub a h w =
     (case config_file h of
        Not_found \<Rightarrow> Some (Exit 1, None)
      | Invalid_json \<Rightarrow> Some (Exit 1, None)
      | Load_raises e \<Rightarrow> Some (Uncaught e, None)
      | Loaded cfg \<Rightarrow>
          (case logging_raises h of
             Some e \<Rightarrow> Some (Uncaught e, None)
           | None \<Rightarrow>
               (if missing_key (resolve_api_key (api_key a) (env_api_key h))
                then Some (Exit 1, None)
                else (case override cfg (concurrent a) of
                        Inl e \<Rightarrow> Some (Uncaught e, None)
                      | Inr cfg' \<Rightarrow>
                          (case HTML2MDConverter_init cfg' of
                             None \<Rightarrow> None
                           | Some (Inl e) \<Rightarrow> Some (Uncaught e, None)
                           | Some (Inr conv) \<Rightarrow>
                               (case convert_directory charref_sub conv w (directory a) (output_name a) of
                                  (Returned r, written) \<Rightarrow> Some (Exit 0, Some (Returned r, written))
                                | (Raised e, written) \<Rightarrow> Some (Exit 1, Some (Raised e, written))
                                | (Never_returns, written) \<Rightarrow>
                                    Some (Runs_for_ever, Some (Never_returns, written))))))))"

section \<open>Worlds for the examples\<close>

text \<open>The converter of the default settings; a world with an existing directory, the
  given matches, replies and completion times, no existing output file and no failure
  of the file system.\<close>

definition default_converter :: converter where
  "default_converter =
     \<lparr> configuration = JDict fmempty,
       api_client = \<lparr> max_retries = 3, retry_delay_base = FloatNum 1,
                       rate_limiter = \<lparr> max_rate = IntNum 875 \<rparr> \<rparr>,
       semaphore = IntNum 20 \<rparr>"

definition world_of ::
  "(string \<times> bool \<times> rat) list \<Rightarrow> (string \<Rightarrow> nat \<Rightarrow> api_reply) \<Rightarrow> (string \<Rightarrow> rat) \<Rightarrow> world" where
  "world_of matches replies completes =
     \<lparr> dir_exists = True, listing = matches, path_exists = (\<lambda>p. False), stdin = [],
       clock = 0, prepare = (\<lambda>p. None), remote_for = replies, finished = completes,
       open_output = None \<rparr>"

text \<open>Two files whose names differ by an underscore and a space, in the order of
  their modification times; the remote model answers each with a text of its own, or
  fails for the first one at every attempt.\<close>

definition two_files :: "(string \<times> bool \<times> rat) list" where
  "two_files = [(''docs/a_b.html'', True, 1), (''docs/a b.html'', True, 2)]"

definition own_text :: "string \<Rightarrow> nat \<Rightarrow> api_reply" where
  "own_text file_path attempt =
     Returns 1 (Some (if file_path = ''docs/a_b.html'' then ''# first'' else ''# second''))"

definition first_fails :: "string \<Rightarrow> nat \<Rightarrow> api_reply" where
  "first_fails file_path attempt =
     (if file_path = ''docs/a_b.html'' then Raises (1 / 2) ''503 UNAVAILABLE''
      else Returns 1 (Some ''# second''))"

definition in_order :: "string \<Rightarrow> rat" where
  "in_order file_path = (if file_path = ''docs/a_b.html'' then 1 else 2)"

text \<open>Three files with modification times 1, 2 and 3 that complete in the order
  third, first, second; the names of the first and the third differ by an underscore
  and a space.\<close>

definition three_files :: "(string \<times> bool \<times> rat) list" where
  "three_files =
     [(''docs/x_y.html'', True, 1), (''docs/z.html'', True, 2), (''docs/x y.html'', True, 3)]"

definition text_of_each :: "string \<Rightarrow> nat \<Rightarrow> api_reply" where
  "text_of_each file_path attempt =
     Returns 1 (Some (if file_path = ''docs/x_y.html'' then ''# first''
                      else if file_path = ''docs/z.html'' then ''# second''
                      else ''# third''))"

definition third_first_second :: "string \<Rightarrow> rat" where
  "third_first_second file_path =
     (if file_path = ''docs/x y.html'' then 1
      else if file_path = ''docs/x_y.html'' then 2
      else 3)"

text \<open>A run in which the output file exists and the user answers the prompt with an
  invalid line and then with the choice 3; a configuration whose \<open>processing\<close> is
  not a mapping; a command line with \<^verbatim>\<open>--concurrent 3\<close> and one without.\<close>

definition cancelling_world :: world where
  "cancelling_world =
     \<lparr> dir_exists = True, listing = [(''docs/z.html'', True, 2)], path_exists = (\<lambda>p. True),
       stdin = [''x'', '' 3 ''], clock = 0, prepare = (\<lambda>p. None),
       remote_for = text_of_each, finished = in_order, open_output = None \<rparr>"

definition plain_host :: host where
  "plain_host =
     \<lparr> config_file = Loaded (JDict fmempty), logging_raises = None,
       env_api_key = Some ''key'' \<rparr>"

definition odd_host :: host where
  "odd_host =
     \<lparr> config_file = Loaded (JDict (fmupd ''processing'' (JInt 5) fmempty)),
       logging_raises = None, env_api_key = Some ''key'' \<rparr>"

definition plain_args :: args where
  "plain_args =
     \<lparr> directory = ''docs'', api_key = None, concurrent = None, output_name = ''output.md'' \<rparr>"

definition concurrent_args :: args where
  "concurrent_args =
     \<lparr> directory = ''docs'', api_key = None, concurrent = Some 3, output_name = ''output.md'' \<rparr>"

section \<open>Properties of Config.get\<close>

lemma split_on_not_Nil: "split_on sep s \<noteq> []"
  by (induction s) (auto split: list.splits)

lemma get_loop_reach:
  "get_loop v ks dflt = Inr (case reach v ks of Some w \<Rightarrow> w | None \<Rightarrow> dflt)"
proof (induction ks arbitrary: v)
  case Nil
  show ?case by simp
next
  case (Cons k ks)
  show ?case
  proof (cases v)
    case (JDict d)
    then show ?thesis
      using Cons.IH by (cases "fmlookup d k") simp_all
  qed simp_all
qed

text \<open>
  C7. For every configuration value, dotted key and default, \<open>Config.get\<close> returns
  normally (it never raises); what it returns is the value reached by following the
  segments of the key through the nested mappings, and the default when a segment is
  missing or a value on the way is not a mapping.
\<close>

theorem C7_get_returns_reached_or_default:
  "Config_get config key dflt =
     Inr (case reach config (segments key) of Some w \<Rightarrow> w | None \<Rightarrow> dflt)"
  unfolding Config_get_def segments_def by (rule get_loop_reach)

section \<open>Properties of clean_filename\<close>

lemma is_space_space: "is_space CHR '' ''"
  by (simp add: is_space_def)

lemma filter_collapse_ws:
  "filter (\<lambda>c. \<not> is_space c) (collapse_ws s) = filter (\<lambda>c. \<not> is_space c) s"
  by (induction s rule: collapse_ws.induct) (auto simp: is_space_space)

lemma filter_dropWhile_space:
  "filter (\<lambda>c. \<not> is_space c) (dropWhile is_space s) = filter (\<lambda>c. \<not> is_space c) s"
  by (induction s) auto

lemma filter_strip: "filter (\<lambda>c. \<not> is_space c) (strip s) = filter (\<lambda>c. \<not> is_space c) s"
  by (simp add: strip_def filter_dropWhile_space rev_filter [symmetric])

lemma set_collapse_ws: "set (collapse_ws s) \<subseteq> insert CHR '' '' (set s)"
  by (induction s rule: collapse_ws.induct) auto

lemma set_strip: "set (strip s) \<subseteq> set s"
proof
  fix x assume "x \<in> set (strip s)"
  then have "x \<in> set (dropWhile is_space (rev (dropWhile is_space s)))"
    by (simp add: strip_def)
  then have "x \<in> set (rev (dropWhile is_space s))" by (rule set_dropWhileD)
  then have "x \<in> set (dropWhile is_space s)" by simp
  then show "x \<in> set s" by (rule set_dropWhileD)
qed

lemma space_not_unsafe: "CHR '' '' \<notin> set unsafe_chars"
  by (simp add: unsafe_chars_def)

lemma clean_filename_no_unsafe: "set (clean_filename sub f) \<inter> set unsafe_chars = {}"
proof -
  have "set (clean_filename sub f)
          \<subseteq> insert CHR '' '' (set (remove_unsafe (html_unescape sub (replace_underscores (path_stem f)))))"
    unfolding clean_filename_def Let_def using set_strip set_collapse_ws by blast
  then show ?thesis using space_not_unsafe by (auto simp: remove_unsafe_def)
qed

lemma clean_filename_keeps_the_rest:
  "filter (\<lambda>c. \<not> is_space c) (clean_filename sub f)
     = filter (\<lambda>c. \<not> is_space c \<and> c \<notin> set unsafe_chars)
         (html_unescape sub (replace_underscores (path_stem f)))"
  by (simp add: clean_filename_def filter_strip filter_collapse_ws remove_unsafe_def conj_commute)

lemma rfind_None: "c \<notin> set s \<Longrightarrow> rfind c s = None"
  by (induction s) auto

lemma split_on_no_sep: "sep \<notin> set s \<Longrightarrow> split_on sep s = [s]"
  by (induction s) auto

lemma path_stem_plain: "CHR ''.'' \<notin> set n \<Longrightarrow> CHR ''/'' \<notin> set n \<Longrightarrow> path_stem n = n"
  by (cases n) (auto simp: path_stem_def path_name_def split_on_no_sep rfind_None)

lemma collapse_ws_fixed:
  "single_spaced s \<Longrightarrow> list_all (\<lambda>c. is_space c \<longrightarrow> c = CHR '' '') s \<Longrightarrow> collapse_ws s = s"
  by (induction s rule: collapse_ws.induct) auto

lemma strip_fixed:
  assumes "n = [] \<or> (\<not> is_space (hd n) \<and> \<not> is_space (last n))"
  shows "strip n = n"
proof (cases n)
  case Nil
  then show ?thesis by (simp add: strip_def)
next
  case (Cons a list)
  with assms have h: "\<not> is_space (hd n)" and l: "\<not> is_space (last n)" by auto
  from Cons h have 1: "dropWhile is_space n = n" by simp
  have "hd (rev n) = last n" by (simp add: hd_rev)
  with l have 2: "dropWhile is_space (rev n) = rev n"
    by (simp only: dropWhile_eq_self_iff) simp
  show ?thesis by (simp add: strip_def 1 2)
qed

lemma clean_filename_fixed:
  assumes "already_clean n"
  shows "clean_filename sub n = n"
proof -
  from assms have chars: "list_all (\<lambda>c. c \<notin> set ''./_&'' \<and> c \<notin> set unsafe_chars
                             \<and> (is_space c \<longrightarrow> c = CHR '' '')) n"
    and ends: "n = [] \<or> (\<not> is_space (hd n) \<and> \<not> is_space (last n))"
    and single: "single_spaced n"
    by (simp_all add: already_clean_def)
  from chars have nodot: "CHR ''.'' \<notin> set n" and noslash: "CHR ''/'' \<notin> set n"
    and nounder: "CHR ''_'' \<notin> set n" and noamp: "CHR ''&'' \<notin> set n"
    and nounsafe: "\<forall>c \<in> set n. c \<notin> set unsafe_chars"
    and spaces: "list_all (\<lambda>c. is_space c \<longrightarrow> c = CHR '' '') n"
    by (auto simp: list_all_iff)
  have 1: "path_stem n = n" using nodot noslash by (rule path_stem_plain)
  have 2: "replace_underscores n = n"
    using nounder unfolding replace_underscores_def by (induction n) auto
  have 3: "html_unescape sub n = n" using noamp by (simp add: html_unescape_def)
  have 4: "remove_unsafe n = n" using nounsafe by (simp add: remove_unsafe_def)
  have 5: "collapse_ws n = n" using single spaces by (rule collapse_ws_fixed)
  have 6: "strip n = n" using ends by (rule strip_fixed)
  show ?thesis by (simp add: clean_filename_def 1 2 3 4 5 6)
qed

lemma clean_filename_example: "clean_filename sub ''My:File?.html'' = ''MyFile''"
  by (simp add: clean_filename_def path_stem_def path_name_def replace_underscores_def
      html_unescape_def remove_unsafe_def unsafe_chars_def strip_def is_space_def)

text \<open>
  C3, as stated, at its example: the colon and the question mark of
  \<^verbatim>\<open>My:File?.html\<close> are deleted, they are not turned into a space, so the title is
  \<^verbatim>\<open>MyFile\<close> and not \<^verbatim>\<open>My File\<close>. The name holds no ampersand, so
  \<^verbatim>\<open>html.unescape\<close> returns it at its first statement; the identity stands for the
  substitution that is not run.
\<close>

theorem C3_example_counterexample: "clean_filename id ''My:File?.html'' \<noteq> ''My File''"
  by (simp add: clean_filename_def path_stem_def path_name_def replace_underscores_def
      html_unescape_def remove_unsafe_def unsafe_chars_def strip_def is_space_def)

lemma strip_rstrip: "strip s = rstrip (dropWhile is_space s)"
  by (simp add: strip_def rstrip_def)

lemma rstrip_Nil: "rstrip [] = []"
  by (simp add: rstrip_def)

lemma rstrip_Cons:
  "rstrip (c # s) = (if rstrip s = [] \<and> is_space c then [] else c # rstrip s)"
  by (simp add: rstrip_def dropWhile_append)

lemma split_ws_space: "is_space c \<Longrightarrow> split_ws (c # s) = split_ws s"
  by (cases s) auto

lemma split_ws_nonspace_ne: "\<not> is_space c \<Longrightarrow> split_ws (c # s) \<noteq> []"
  by (cases s) (auto split: list.splits)

lemma join_words_Cons_Cons: "join_words ((c # w) # ws) = c # join_words (w # ws)"
  by (cases ws) auto

lemma collapse_ws_nonspace: "\<not> is_space c \<Longrightarrow> collapse_ws (c # s) = c # collapse_ws s"
  by (cases s) auto

lemma lstrip_collapse_space:
  "is_space c \<Longrightarrow> dropWhile is_space (collapse_ws (c # s)) = dropWhile is_space (collapse_ws s)"
  by (cases s) (auto simp: is_space_space collapse_ws_nonspace)

lemma join_first: "\<not> is_space c \<Longrightarrow> join_words (split_ws (c # s)) \<noteq> []"
  by (cases s) (auto split: list.splits simp: join_words_Cons_Cons)

lemma split_ws_first_nonempty: "[] \<notin> set (split_ws s)"
  by (induction s rule: split_ws.induct) (auto split: list.splits)

lemma rstrip_collapse:
  "rstrip (collapse_ws s)
     = (if s \<noteq> [] \<and> is_space (hd s)
        then (if split_ws s = [] then [] else CHR '' '' # join_words (split_ws s))
        else join_words (split_ws s))"
proof (induction s rule: collapse_ws.induct)
  case 1
  show ?case by (simp add: rstrip_Nil)
next
  case (2 c)
  show ?case by (simp add: rstrip_Cons rstrip_Nil is_space_space)
next
  case (3 c d cs)
  show ?case
  proof (cases "is_space c")
    case True
    note c = this
    show ?thesis
    proof (cases "is_space d")
      case True
      with c 3 show ?thesis by simp
    next
      case False
      then have ne: "split_ws (d # cs) \<noteq> []" by (rule split_ws_nonspace_ne)
      have j: "join_words (split_ws (d # cs)) \<noteq> []" using False by (rule join_first)
      from 3 c False have ih: "rstrip (collapse_ws (d # cs)) = join_words (split_ws (d # cs))"
        by simp
      show ?thesis using c False ne j ih
        by (simp add: rstrip_Cons is_space_space)
    qed
  next
    case False
    note c = this
    show ?thesis
    proof (cases "is_space d")
      case True
      from 3 c True have ih: "rstrip (collapse_ws (d # cs))
         = (if split_ws (d # cs) = [] then [] else CHR '' '' # join_words (split_ws (d # cs)))"
        by simp
      show ?thesis
      proof (cases "split_ws (d # cs)")
        case Nil
        then show ?thesis using c True ih by (simp add: rstrip_Cons)
      next
        case (Cons w ws)
        then show ?thesis using c True ih by (simp add: rstrip_Cons)
      qed
    next
      case False
      from 3 c False have ih: "rstrip (collapse_ws (d # cs)) = join_words (split_ws (d # cs))"
        by simp
      obtain w ws where s: "split_ws (d # cs) = w # ws"
        using split_ws_nonspace_ne [OF False, of cs] by (cases "split_ws (d # cs)") auto
      show ?thesis using c False ih s
        by (simp add: rstrip_Cons join_words_Cons_Cons)
    qed
  qed
qed

lemma strip_collapse_join: "strip (collapse_ws s) = join_words (split_ws s)"
proof (induction s)
  case Nil
  show ?case by (simp add: strip_def)
next
  case (Cons c s)
  show ?case
  proof (cases "is_space c")
    case True
    then show ?thesis
      using Cons by (simp add: strip_rstrip lstrip_collapse_space split_ws_space)
  next
    case False
    have "strip (collapse_ws (c # s)) = rstrip (c # collapse_ws s)"
      using False by (simp add: strip_rstrip collapse_ws_nonspace)
    also have "\<dots> = c # rstrip (collapse_ws s)" using False by (simp add: rstrip_Cons)
    also have "\<dots> = join_words (split_ws (c # s))"
    proof (cases s)
      case Nil
      then show ?thesis using False by (simp add: rstrip_Nil)
    next
      case (Cons d cs)
      show ?thesis
      proof (cases "is_space d")
        case True
        then show ?thesis using False Cons
          by (cases "split_ws (d # cs)") (simp_all add: rstrip_collapse)
      next
        case nd: False
        obtain w ws where s: "split_ws (d # cs) = w # ws"
          using split_ws_nonspace_ne [OF nd, of cs] by (cases "split_ws (d # cs)") auto
        show ?thesis using False Cons nd s
          by (simp add: rstrip_collapse join_words_Cons_Cons)
      qed
    qed
    finally show ?thesis .
  qed
qed

lemma unsafe_chars_set:
  "set unsafe_chars
     = {CHR ''<'', CHR ''>'', CHR '':'', CHR 0x22, CHR ''/'', CHR 0x5C, CHR ''|'', CHR ''?'', CHR ''*''}"
  by (simp add: unsafe_chars_def)

lemma clean_filename_words:
  "clean_filename sub f
     = join_words (split_ws (filter (\<lambda>c. c \<notin> set unsafe_chars)
         (html_unescape sub (replace_underscores (path_stem f)))))"
  by (simp add: clean_filename_def remove_unsafe_def strip_collapse_join)

text \<open>
  C3, amended. Whatever the character references decode to, the title is made of the
  words of the decoded name (stem of the file name, underscores replaced by spaces,
  entities decoded) from which exactly the nine characters of the class have been
  deleted, joined by single spaces: whitespace is collapsed and trimmed after the
  deletion, and nothing else is changed. The title holds none of the nine characters;
  a name that is already clean is returned unchanged; and the title of
  \<^verbatim>\<open>My:File?.html\<close> is \<^verbatim>\<open>MyFile\<close>.
\<close>

theorem C3_clean_filename_strips_class:
  "clean_filename sub f
     = join_words (split_ws (filter
         (\<lambda>c. c \<notin> {CHR ''<'', CHR ''>'', CHR '':'', CHR 0x22, CHR ''/'', CHR 0x5C,
                    CHR ''|'', CHR ''?'', CHR ''*''})
         (html_unescape sub (replace_underscores (path_stem f)))))
   \<and> set (clean_filename sub f)
       \<inter> {CHR ''<'', CHR ''>'', CHR '':'', CHR 0x22, CHR ''/'', CHR 0x5C,
          CHR ''|'', CHR ''?'', CHR ''*''} = {}
   \<and> (already_clean n \<longrightarrow> clean_filename sub n = n)
   \<and> clean_filename sub ''My:File?.html'' = ''MyFile''"
  using clean_filename_words [of sub f] clean_filename_no_unsafe [of sub f]
    clean_filename_fixed [of n sub] clean_filename_example [of sub]
  unfolding unsafe_chars_set by blast

text \<open>The hypothesis of C3 holds of the name \<^verbatim>\<open>My File\<close>, and the first part gives
  the title of a name with whitespace to collapse and to trim.\<close>

theorem C3_clean_filename_witness:
  "already_clean ''My File'' \<and> clean_filename id ''My File'' = ''My File''
   \<and> clean_filename id '' a__b: .html'' = ''a b''"
proof -
  have c: "already_clean ''My File''"
    by (simp add: already_clean_def unsafe_chars_def is_space_def)
  have w: "join_words (split_ws (filter
         (\<lambda>c. c \<notin> {CHR ''<'', CHR ''>'', CHR '':'', CHR 0x22, CHR ''/'', CHR 0x5C,
                    CHR ''|'', CHR ''?'', CHR ''*''})
         (html_unescape id (replace_underscores (path_stem '' a__b: .html''))))) = ''a b''"
    by (simp add: path_stem_def path_name_def replace_underscores_def html_unescape_def
        is_space_def)
  show ?thesis
    using c w C3_clean_filename_strips_class [of id "'' a__b: .html''" "''My File''"] by metis
qed

text \<open>Applying \<open>clean_filename\<close> twice is not the same as applying it once when the
  first title still has an extension to lose.\<close>

lemma clean_filename_twice:
  "clean_filename id (clean_filename id ''a.b.html'') \<noteq> clean_filename id ''a.b.html''"
  by (simp add: clean_filename_def path_stem_def path_name_def replace_underscores_def
      html_unescape_def remove_unsafe_def unsafe_chars_def strip_def is_space_def)

section \<open>Properties of the retry loop\<close>

lemma small_below_int_to_float_bound: "n \<le> 2 ^ 64 \<Longrightarrow> n < int_to_float_bound"
proof -
  have "(2::int) ^ 970 * 2 \<le> 2 ^ 970 * 2 ^ 54" by (intro mult_left_mono) simp_all
  then have "(2::int) ^ 970 \<le> 2 ^ 1024 - 2 ^ 970" by (simp add: power_add [symmetric])
  moreover have "(2::int) ^ 64 < 2 ^ 970" by (rule power_strict_increasing) simp_all
  moreover assume "n \<le> 2 ^ 64"
  ultimately show ?thesis unfolding int_to_float_bound_def by linarith
qed

lemma small_below_int_str_bound: "n \<le> 10 ^ 9 \<Longrightarrow> n < int_str_bound"
proof -
  have "(10::int) ^ 9 < 10 ^ 4300" by (rule power_strict_increasing) simp_all
  moreover assume "n \<le> 10 ^ 9"
  ultimately show ?thesis unfolding int_str_bound_def by linarith
qed

lemma small_below_float_bound: "p \<le> 2 ^ 64 \<Longrightarrow> p < float_bound"
proof -
  have "(2::rat) ^ 64 < 2 ^ 1024" by (rule power_strict_increasing) simp_all
  moreover assume "p \<le> 2 ^ 64"
  ultimately show ?thesis unfolding float_bound_def by linarith
qed

lemma float_bound_positive: "0 < float_bound"
  by (simp add: float_bound_def)

lemma small_not_above_bounds:
  "n \<le> 2 ^ 64 \<Longrightarrow> \<not> int_to_float_bound \<le> n"
  "m \<le> 10 ^ 9 \<Longrightarrow> \<not> int_str_bound \<le> m"
  "p \<le> 2 ^ 64 \<Longrightarrow> \<not> float_bound \<le> p"
  "- (2 ^ 64) \<le> p \<Longrightarrow> \<not> p \<le> - float_bound"
  using small_below_int_to_float_bound [of n] small_below_int_str_bound [of m]
    small_below_float_bound [of p] small_below_float_bound [of "2 ^ 64"]
  by auto

lemma backoff_sleepable_sleeps:
  assumes "backoff_sleepable base attempt"
  shows "times_power_of_two base attempt = Inr (backoff_delay base attempt)"
    and "asyncio_sleep (backoff_delay base attempt) = Slept"
  using assms by (cases base; simp add: float_value_def)+

lemma make_api_call_failure:
  "is_failure reply \<Longrightarrow> \<exists>e. fst (make_api_call reply) = Raised e"
proof (cases reply)
  case (Returns t r)
  assume "is_failure reply"
  with Returns show ?thesis by simp
next
  case (Raises t e)
  show ?thesis
  proof (cases "quota_delay e")
    case None
    with Raises show ?thesis by simp
  next
    case (Some digits)
    show ?thesis
    proof (cases "python_int digits")
      case (Inl x)
      with Raises Some show ?thesis by simp
    next
      case (Inr d)
      with Raises Some show ?thesis by (simp split: sleep_outcome.splits)
    qed
  qed
qed

lemma make_api_call_one_call: "length (filter is_call (snd (make_api_call reply))) = 1"
proof (cases reply)
  case (Returns t r)
  then show ?thesis by simp
next
  case (Raises t e)
  show ?thesis
  proof (cases "quota_delay e")
    case None
    with Raises show ?thesis by simp
  next
    case (Some digits)
    show ?thesis
    proof (cases "python_int digits")
      case (Inl x)
      with Raises Some show ?thesis by simp
    next
      case (Inr d)
      with Raises Some show ?thesis by (cases "asyncio_sleep (IntNum d)") simp_all
    qed
  qed
qed

lemma make_api_call_events:
  "Acquire \<notin> set (snd (make_api_call reply)) \<and> Release \<notin> set (snd (make_api_call reply))
   \<and> backoff_sleeps (snd (make_api_call reply)) = []"
proof (cases reply)
  case (Returns t r)
  then show ?thesis by simp
next
  case (Raises t e)
  show ?thesis
  proof (cases "quota_delay e")
    case None
    with Raises show ?thesis by simp
  next
    case (Some digits)
    show ?thesis
    proof (cases "python_int digits")
      case (Inl x)
      with Raises Some show ?thesis by simp
    next
      case (Inr d)
      with Raises Some show ?thesis by (cases "asyncio_sleep (IntNum d)") simp_all
    qed
  qed
qed

lemma retry_loop_fail_step:
  assumes "make_api_call (remote attempt) = (Raised e, evs)"
    and "int attempt + 1 < int_str_bound"
    and "int attempt < max_retries c - 1"
    and "backoff_sleepable (retry_delay_base c) attempt"
  shows "retry_loop c remote attempt (Suc left)
         = (fst (retry_loop c remote (Suc attempt) left),
            evs @ [BackoffSleep (backoff_delay (retry_delay_base c) attempt)]
              @ snd (retry_loop c remote (Suc attempt) left))"
  using assms backoff_sleepable_sleeps [OF assms(4)]
  by (simp split: prod.splits)

lemma retry_loop_fail_last:
  assumes "make_api_call (remote attempt) = (Raised e, evs)"
    and "int attempt + 1 < int_str_bound"
    and "\<not> int attempt < max_retries c - 1"
  shows "retry_loop c remote attempt (Suc left) = (Raised e, evs)"
  using assms by simp


lemma retry_loop_all_fail:
  assumes "\<forall>i. attempt \<le> i \<and> i < attempt + left \<longrightarrow> is_failure (remote i)"
    and "\<forall>i. attempt \<le> i \<and> int i < max_retries c - 1
           \<longrightarrow> backoff_sleepable (retry_delay_base c) i"
    and "int (attempt + left) = max_retries c" and "0 < left"
    and "max_retries c < int_str_bound"
  shows "retry_loop c remote attempt left
         = (fst (make_api_call (remote (attempt + left - 1))),
            concat (map (\<lambda>i. failed_attempt (retry_delay_base c) (max_retries c) i (remote i))
                        [attempt..<attempt + left]))"
  using assms
proof (induction left arbitrary: attempt)
  case 0
  then show ?case by simp
next
  case (Suc left)
  from Suc.prems(1) have "is_failure (remote attempt)" by simp
  then obtain e where "fst (make_api_call (remote attempt)) = Raised e"
    using make_api_call_failure by blast
  then obtain evs where r: "make_api_call (remote attempt) = (Raised e, evs)"
    by (cases "make_api_call (remote attempt)") auto
  from Suc.prems(3,5) have b: "int attempt + 1 < int_str_bound" by simp
  show ?case
  proof (cases "left = 0")
    case True
    with Suc.prems(3) have "\<not> int attempt < max_retries c - 1" by simp
    then show ?thesis using r True b
      by (simp add: failed_attempt_def)
  next
    case False
    with Suc.prems(3) have lt: "int attempt < max_retries c - 1" by simp
    with Suc.prems(2) have sl: "backoff_sleepable (retry_delay_base c) attempt" by simp
    have ih: "retry_loop c remote (Suc attempt) left
         = (fst (make_api_call (remote (Suc attempt + left - 1))),
            concat (map (\<lambda>i. failed_attempt (retry_delay_base c) (max_retries c) i (remote i))
                        [Suc attempt..<Suc attempt + left]))"
      using Suc.prems False by (intro Suc.IH) auto
    have u: "[attempt..<attempt + Suc left] = attempt # [Suc attempt..<Suc attempt + left]"
      by (simp add: upt_conv_Cons)
    have step: "retry_loop c remote attempt (Suc left)
         = (fst (retry_loop c remote (Suc attempt) left),
            evs @ [BackoffSleep (backoff_delay (retry_delay_base c) attempt)]
              @ snd (retry_loop c remote (Suc attempt) left))"
      using r b lt sl by (rule retry_loop_fail_step)
    show ?thesis
      unfolding step ih u by (simp add: r lt failed_attempt_def)
  qed
qed

lemma retry_loop_success_after:
  assumes "\<forall>i. attempt \<le> i \<and> i < attempt + k \<longrightarrow> is_failure (remote i)"
    and "\<forall>i. attempt \<le> i \<and> int i < max_retries c - 1
           \<longrightarrow> backoff_sleepable (retry_delay_base c) i"
    and "remote (attempt + k) = Returns t response"
    and "int (attempt + k) < max_retries c" and "k < left"
    and "max_retries c < int_str_bound"
  shows "retry_loop c remote attempt left
         = (Returned response,
            concat (map (\<lambda>i. failed_attempt (retry_delay_base c) (max_retries c) i (remote i))
                        [attempt..<attempt + k]) @ [ApiCall t])"
  using assms
proof (induction k arbitrary: attempt left)
  case 0
  then obtain l where "left = Suc l" by (cases left) auto
  with 0 show ?case by simp
next
  case (Suc k)
  then obtain l where l: "left = Suc l" by (cases left) auto
  from Suc.prems(1) have "is_failure (remote attempt)" by simp
  then obtain e where "fst (make_api_call (remote attempt)) = Raised e"
    using make_api_call_failure by blast
  then obtain evs where r: "make_api_call (remote attempt) = (Raised e, evs)"
    by (cases "make_api_call (remote attempt)") auto
  from Suc.prems(4,6) have b: "int attempt + 1 < int_str_bound" by simp
  from Suc.prems(4) have lt: "int attempt < max_retries c - 1" by simp
  with Suc.prems(2) have sl: "backoff_sleepable (retry_delay_base c) attempt" by simp
  have ih: "retry_loop c remote (Suc attempt) l
         = (Returned response,
            concat (map (\<lambda>i. failed_attempt (retry_delay_base c) (max_retries c) i (remote i))
                        [Suc attempt..<Suc attempt + k]) @ [ApiCall t])"
    using Suc.prems l by (intro Suc.IH) auto
  have u: "[attempt..<attempt + Suc k] = attempt # [Suc attempt..<Suc attempt + k]"
    by (simp add: upt_conv_Cons)
  have step: "retry_loop c remote attempt (Suc l)
       = (fst (retry_loop c remote (Suc attempt) l),
          evs @ [BackoffSleep (backoff_delay (retry_delay_base c) attempt)]
            @ snd (retry_loop c remote (Suc attempt) l))"
    using r b lt sl by (rule retry_loop_fail_step)
  show ?case
    unfolding l step ih u by (simp add: r lt failed_attempt_def)
qed

lemma backoff_sleeps_append: "backoff_sleeps (xs @ ys) = backoff_sleeps xs @ backoff_sleeps ys"
  by (induction xs rule: backoff_sleeps.induct) auto

lemma backoff_sleeps_failed_attempt:
  "backoff_sleeps (failed_attempt base n i reply)
     = (if int i < n - 1 then [backoff_delay base i] else [])"
  by (simp add: failed_attempt_def backoff_sleeps_append make_api_call_events)

lemma backoff_sleeps_failed_attempts:
  "int m \<le> n \<Longrightarrow>
   backoff_sleeps (concat (map (\<lambda>i. failed_attempt base n i (remote i)) [0..<m]))
     = map (backoff_delay base) [0..<min m (nat (n - 1))]"
proof (induction m)
  case 0
  show ?case by simp
next
  case (Suc m)
  then have ih: "backoff_sleeps (concat (map (\<lambda>i. failed_attempt base n i (remote i)) [0..<m]))
     = map (backoff_delay base) [0..<min m (nat (n - 1))]" by simp
  show ?case
  proof (cases "int m < n - 1")
    case True
    then have "min (Suc m) (nat (n - 1)) = Suc m" "min m (nat (n - 1)) = m" by auto
    then show ?thesis using True ih
      by (simp add: backoff_sleeps_append backoff_sleeps_failed_attempt)
  next
    case False
    with Suc.prems have "min (Suc m) (nat (n - 1)) = m" "min m (nat (n - 1)) = m" by auto
    then show ?thesis using False ih
      by (simp add: backoff_sleeps_append backoff_sleeps_failed_attempt)
  qed
qed

lemma calls_failed_attempt: "length (filter is_call (failed_attempt base n i reply)) = 1"
  by (simp add: failed_attempt_def make_api_call_one_call)

lemma calls_failed_attempts:
  "length (filter is_call (concat (map (\<lambda>i. failed_attempt base n i (remote i)) [0..<m]))) = m"
proof (induction m)
  case 0
  show ?case by simp
next
  case (Suc m)
  then show ?case by (simp add: calls_failed_attempt)
qed

lemma convert_all_fail:
  assumes "\<not> below_one (max_rate (rate_limiter c))"
    and "0 < max_retries c" and "max_retries c < int_str_bound"
    and "\<forall>i. int i < max_retries c - 1 \<longrightarrow> backoff_sleepable (retry_delay_base c) i"
    and "\<forall>i < nat (max_retries c). is_failure (remote i)"
  shows "convert_html_to_markdown c remote
         = (fst (make_api_call (remote (nat (max_retries c) - 1))),
            [Acquire]
              @ concat (map (\<lambda>i. failed_attempt (retry_delay_base c) (max_retries c) i (remote i))
                            [0..<nat (max_retries c)])
              @ [Release])"
proof -
  have l: "retry_loop c remote 0 (nat (max_retries c))
         = (fst (make_api_call (remote (0 + nat (max_retries c) - 1))),
            concat (map (\<lambda>i. failed_attempt (retry_delay_base c) (max_retries c) i (remote i))
                        [0..<0 + nat (max_retries c)]))"
    using assms by (intro retry_loop_all_fail) auto
  have "is_failure (remote (nat (max_retries c) - 1))" using assms(2,5) by simp
  then obtain e where "fst (make_api_call (remote (nat (max_retries c) - 1))) = Raised e"
    using make_api_call_failure by blast
  then show ?thesis using assms(1) l by (simp add: convert_html_to_markdown_def)
qed

lemma convert_success_after:
  assumes "\<not> below_one (max_rate (rate_limiter c))"
    and "max_retries c < int_str_bound"
    and "\<forall>i. int i < max_retries c - 1 \<longrightarrow> backoff_sleepable (retry_delay_base c) i"
    and "k < nat (max_retries c)" "\<forall>i < k. is_failure (remote i)"
    and "remote k = Returns t response"
  shows "convert_html_to_markdown c remote
         = (Returned response,
            [Acquire]
              @ concat (map (\<lambda>i. failed_attempt (retry_delay_base c) (max_retries c) i (remote i))
                            [0..<k])
              @ [ApiCall t] @ [Release])"
proof -
  have "retry_loop c remote 0 (nat (max_retries c))
         = (Returned response,
            concat (map (\<lambda>i. failed_attempt (retry_delay_base c) (max_retries c) i (remote i))
                        [0..<0 + k]) @ [ApiCall t])"
    using assms by (intro retry_loop_success_after) auto
  then show ?thesis using assms(1) by (simp add: convert_html_to_markdown_def)
qed

lemma example_client_facts:
  "\<not> below_one (max_rate (rate_limiter example_client))"
  "max_retries example_client = 3"
  "retry_delay_base example_client = FloatNum 1"
  by (simp_all add: example_client_def)

lemma example_backoff_sleepable: "int i < 3 - 1 \<Longrightarrow> backoff_sleepable (FloatNum 1) i"
proof -
  assume "int i < 3 - 1"
  then have i: "i < 2" by simp
  then have "(2::rat) ^ i \<le> 2 ^ 64" by (intro power_increasing) simp_all
  then have "(1::rat) * 2 ^ i < float_bound" using small_below_float_bound by simp
  with i show ?thesis by simp
qed

lemma make_api_call_always_failing:
  "make_api_call (always_failing i) = (Raised (ApiError ''503 UNAVAILABLE''), [ApiCall (1 / 2)])"
  by (simp add: always_failing_def quota_delay_def)

lemma quota_delay_quota_error: "quota_delay quota_error = Some ''7''"
  by (simp add: quota_delay_def quota_error_def retry_delay_prefix_def retry_delay_at_def
      is_digit_def)

lemma make_api_call_quota_error:
  "make_api_call (Raises 0 quota_error)
     = (Raised (ApiError quota_error), [ApiCall 0, RetryDelaySleep (IntNum 7)])"
  by (simp add: quota_delay_quota_error python_int_def max_str_digits_def int_of_digits_def
      small_not_above_bounds)

lemma float_value_small: "- (2 ^ 64) \<le> p \<Longrightarrow> p \<le> 2 ^ 64 \<Longrightarrow> float_value p = FloatNum p"
  by (simp add: float_value_def small_not_above_bounds)

lemma convert_always_failing:
  "convert_html_to_markdown example_client always_failing
     = (Raised (ApiError ''503 UNAVAILABLE''),
        [Acquire, ApiCall (1 / 2), BackoffSleep (FloatNum 1), ApiCall (1 / 2),
         BackoffSleep (FloatNum 2), ApiCall (1 / 2), Release])"
  by (simp add: convert_html_to_markdown_def example_client_def make_api_call_always_failing
      numeral_3_eq_3 small_not_above_bounds float_value_small)

lemma convert_quota_then_text:
  "convert_html_to_markdown example_client quota_then_text
     = (Returned (Some ''## Title''),
        [Acquire, ApiCall 0, RetryDelaySleep (IntNum 7), BackoffSleep (FloatNum 1), ApiCall 0,
         Release])"
  by (simp add: convert_html_to_markdown_def example_client_def quota_then_text_def
      quota_delay_quota_error python_int_def max_str_digits_def int_of_digits_def
      numeral_3_eq_3 small_not_above_bounds float_value_small)

lemma convert_no_attempts:
  "convert_html_to_markdown no_attempts_client always_failing = (Returned None, [Acquire, Release])"
  by (simp add: convert_html_to_markdown_def no_attempts_client_def)


text \<open>
  C5, as stated, fails for \<open>max_retries = 0\<close>: the loop does not run, no remote call
  is made and the conversion returns \<^verbatim>\<open>None\<close> instead of failing, whatever the remote
  model would answer.
\<close>

theorem C5_no_attempts_counterexample:
  "convert_html_to_markdown no_attempts_client always_failing = (Returned None, [Acquire, Release])"
  by (simp add: convert_html_to_markdown_def no_attempts_client_def)

text \<open>
  C5, amended. Let the rate limit be at least 1, \<open>max_retries\<close> be at least 1 (and
  below \<open>10 ^ 4300\<close>), and let every backoff delay be one that can be slept. Then the
  conversion makes the remote call up to \<open>max_retries\<close> times. When every attempt
  fails, it makes exactly \<open>max_retries\<close> calls, the retry loop sleeps
  \<open>base * 2 ^ attempt\<close> after each failed attempt but the last (attempts counted from
  0), and the conversion raises the exception with which the last call ended. When
  attempt \<open>k\<close> is the first to succeed, its response is returned after \<open>k + 1\<close>
  calls and the backoff sleeps of the attempts before it.
\<close>

theorem C5_retries_with_exponential_backoff:
  assumes "\<not> below_one (max_rate (rate_limiter c))"
    and "0 < max_retries c" and "max_retries c < int_str_bound"
    and "\<forall>i. int i < max_retries c - 1 \<longrightarrow> backoff_sleepable (retry_delay_base c) i"
  shows "((\<forall>i < nat (max_retries c). is_failure (remote i)) \<longrightarrow>
            (\<exists>e. fst (convert_html_to_markdown c remote) = Raised e
                 \<and> fst (make_api_call (remote (nat (max_retries c) - 1))) = Raised e)
          \<and> length (filter is_call (snd (convert_html_to_markdown c remote))) = nat (max_retries c)
          \<and> backoff_sleeps (snd (convert_html_to_markdown c remote))
              = map (backoff_delay (retry_delay_base c)) [0..<nat (max_retries c) - 1]
          \<and> snd (convert_html_to_markdown c remote)
              = [Acquire]
                @ concat (map (\<lambda>i. failed_attempt (retry_delay_base c) (max_retries c) i (remote i))
                              [0..<nat (max_retries c)])
                @ [Release])
       \<and> (\<forall>k t response.
             k < nat (max_retries c) \<and> (\<forall>i < k. is_failure (remote i))
             \<and> remote k = Returns t response \<longrightarrow>
            fst (convert_html_to_markdown c remote) = Returned response
          \<and> length (filter is_call (snd (convert_html_to_markdown c remote))) = Suc k
          \<and> backoff_sleeps (snd (convert_html_to_markdown c remote))
              = map (backoff_delay (retry_delay_base c)) [0..<k])"
proof (intro conjI impI allI)
  assume fails: "\<forall>i < nat (max_retries c). is_failure (remote i)"
  note eq = convert_all_fail [OF assms fails]
  have "is_failure (remote (nat (max_retries c) - 1))" using assms(2) fails by simp
  then obtain e where e: "fst (make_api_call (remote (nat (max_retries c) - 1))) = Raised e"
    using make_api_call_failure by blast
  show "\<exists>e. fst (convert_html_to_markdown c remote) = Raised e
           \<and> fst (make_api_call (remote (nat (max_retries c) - 1))) = Raised e"
    using e by (simp add: eq)
  show "length (filter is_call (snd (convert_html_to_markdown c remote))) = nat (max_retries c)"
    by (simp add: eq calls_failed_attempts)
  have "min (nat (max_retries c)) (nat (max_retries c - 1)) = nat (max_retries c) - 1"
    using assms(2) by auto
  then show "backoff_sleeps (snd (convert_html_to_markdown c remote))
              = map (backoff_delay (retry_delay_base c)) [0..<nat (max_retries c) - 1]"
    using assms(2) by (simp add: eq backoff_sleeps_append backoff_sleeps_failed_attempts)
  show "snd (convert_html_to_markdown c remote)
              = [Acquire]
                @ concat (map (\<lambda>i. failed_attempt (retry_delay_base c) (max_retries c) i (remote i))
                              [0..<nat (max_retries c)])
                @ [Release]"
    by (simp add: eq)
next
  fix k t response
  assume h: "k < nat (max_retries c) \<and> (\<forall>i < k. is_failure (remote i))
             \<and> remote k = Returns t response"
  then have k: "k < nat (max_retries c)" and f: "\<forall>i < k. is_failure (remote i)"
    and r: "remote k = Returns t response"
    by auto
  note eq = convert_success_after [OF assms(1) assms(3) assms(4) k f r]
  show "fst (convert_html_to_markdown c remote) = Returned response" by (simp add: eq)
  show "length (filter is_call (snd (convert_html_to_markdown c remote))) = Suc k"
    by (simp add: eq calls_failed_attempts)
  have "min k (nat (max_retries c - 1)) = k" using k by auto
  moreover have "int k \<le> max_retries c" using k by auto
  ultimately show "backoff_sleeps (snd (convert_html_to_markdown c remote))
              = map (backoff_delay (retry_delay_base c)) [0..<k]"
    by (simp add: eq backoff_sleeps_append backoff_sleeps_failed_attempts)
qed

text \<open>The hypotheses of C5 hold for the client of the examples, with three attempts and
  base 1, and a remote model that always fails: three calls, sleeps of 1 and 2
  seconds between them, and the error of the last call.\<close>

theorem C5_retries_witness:
  "\<not> below_one (max_rate (rate_limiter example_client))
   \<and> 0 < max_retries example_client \<and> max_retries example_client < int_str_bound
   \<and> backoff_sleepable (retry_delay_base example_client) 0
   \<and> backoff_sleepable (retry_delay_base example_client) 1
   \<and> is_failure (always_failing 0) \<and> is_failure (always_failing 1) \<and> is_failure (always_failing 2)
   \<and> fst (convert_html_to_markdown example_client always_failing)
       = Raised (ApiError ''503 UNAVAILABLE'')
   \<and> length (filter is_call (snd (convert_html_to_markdown example_client always_failing))) = 3
   \<and> backoff_sleeps (snd (convert_html_to_markdown example_client always_failing))
       = [FloatNum 1, FloatNum 2]"
proof -
  have a: "\<not> below_one (max_rate (rate_limiter example_client))"
    and p: "0 < max_retries example_client"
    and n: "max_retries example_client = 3"
    and b: "retry_delay_base example_client = FloatNum 1"
    by (simp_all add: example_client_def)
  have s: "max_retries example_client < int_str_bound"
    unfolding n by (rule small_below_int_str_bound) simp
  have sl: "\<forall>i. int i < max_retries example_client - 1
              \<longrightarrow> backoff_sleepable (retry_delay_base example_client) i"
    unfolding n b using example_backoff_sleepable by blast
  have sl01: "backoff_sleepable (retry_delay_base example_client) 0
              \<and> backoff_sleepable (retry_delay_base example_client) 1"
    using sl n by simp
  have f: "\<forall>i < nat (max_retries example_client). is_failure (always_failing i)"
    by (simp add: always_failing_def)
  have f3: "is_failure (always_failing 0) \<and> is_failure (always_failing 1) \<and> is_failure (always_failing 2)"
    by (simp add: always_failing_def)
  note all = C5_retries_with_exponential_backoff [OF a p s sl, of always_failing,
      THEN conjunct1, THEN mp, OF f]
  have 1: "fst (convert_html_to_markdown example_client always_failing)
             = Raised (ApiError ''503 UNAVAILABLE'')"
    using all make_api_call_always_failing by auto
  have 2: "length (filter is_call (snd (convert_html_to_markdown example_client always_failing)))
             = nat (max_retries example_client)"
    using all by blast
  have 3: "backoff_sleeps (snd (convert_html_to_markdown example_client always_failing))
             = map (backoff_delay (retry_delay_base example_client))
                 [0..<nat (max_retries example_client) - 1]"
    using all by blast
  have u: "map (backoff_delay (FloatNum 1)) [0..<nat 3 - 1] = [FloatNum 1, FloatNum 2]"
    by (simp add: upt_conv_Cons float_value_small)
  show ?thesis
    using a p s sl01 f3 1 2 3 u unfolding n b by simp
qed


lemma make_api_call_quota:
  assumes "str_contains ''429'' e" and "str_contains ''RESOURCE_EXHAUSTED'' e"
    and "retry_delay_search e = Some digits"
    and "length digits \<le> 4300" and "int_of_digits digits < int_to_float_bound"
  shows "make_api_call (Raises t e)
           = (Raised (ApiError e), [ApiCall t, RetryDelaySleep (IntNum (int_of_digits digits))])"
  using assms by (simp add: quota_delay_def python_int_def max_str_digits_def)

text \<open>
  C4, as stated, fails: with base 1 and a quota error that suggests 7 seconds at the
  first attempt, the sleep of 7 seconds is followed by the backoff sleep of
  \<open>1 * 2 ^ 0 = 1\<close> second before the second attempt; the suggested delay does not
  replace the backoff.
\<close>

theorem C4_delay_replaces_backoff_counterexample:
  "convert_html_to_markdown example_client quota_then_text
     = (Returned (Some ''## Title''),
        [Acquire, ApiCall 0, RetryDelaySleep (IntNum 7), BackoffSleep (FloatNum 1), ApiCall 0,
         Release])"
  by (simp add: convert_html_to_markdown_def example_client_def quota_then_text_def
      quota_delay_quota_error python_int_def max_str_digits_def int_of_digits_def
      numeral_3_eq_3 small_not_above_bounds float_value_small)

text \<open>
  C4, amended. Let an attempt fail with a quota error (its message holds \<^verbatim>\<open>429\<close> and
  \<^verbatim>\<open>RESOURCE_EXHAUSTED\<close>) that carries a delay of \<open>d\<close> seconds, written with at most
  4300 digits and below the bound \<open>2 ^ 1024 - 2 ^ 970\<close> of the conversion to float.
  The failing call sleeps \<open>d\<close> seconds before it raises. When another attempt remains
  and the backoff delay can be slept, the retry loop then sleeps its backoff
  \<open>base * 2 ^ attempt\<close> as well, so both sleeps lie between the two attempts. After
  the last attempt the \<open>d\<close> seconds are slept and the error of the call is
  propagated.
\<close>

theorem C4_suggested_delay_then_backoff:
  assumes "remote attempt = Raises t e"
    and "str_contains ''429'' e" and "str_contains ''RESOURCE_EXHAUSTED'' e"
    and "retry_delay_search e = Some digits"
    and "length digits \<le> 4300" and "int_of_digits digits < int_to_float_bound"
    and "int attempt + 1 < int_str_bound"
  shows "(int attempt < max_retries c - 1 \<and> backoff_sleepable (retry_delay_base c) attempt \<longrightarrow>
            retry_loop c remote attempt (Suc left)
              = (fst (retry_loop c remote (Suc attempt) left),
                 [ApiCall t, RetryDelaySleep (IntNum (int_of_digits digits)),
                  BackoffSleep (backoff_delay (retry_delay_base c) attempt)]
                   @ snd (retry_loop c remote (Suc attempt) left)))
       \<and> (\<not> int attempt < max_retries c - 1 \<longrightarrow>
            retry_loop c remote attempt (Suc left)
              = (Raised (ApiError e),
                 [ApiCall t, RetryDelaySleep (IntNum (int_of_digits digits))]))"
proof (intro conjI impI)
  have r: "make_api_call (remote attempt)
             = (Raised (ApiError e), [ApiCall t, RetryDelaySleep (IntNum (int_of_digits digits))])"
    unfolding assms(1) using assms(2-6) by (rule make_api_call_quota)
  {
    assume h: "int attempt < max_retries c - 1 \<and> backoff_sleepable (retry_delay_base c) attempt"
    then have lt: "int attempt < max_retries c - 1"
      and sl: "backoff_sleepable (retry_delay_base c) attempt" by auto
    show "retry_loop c remote attempt (Suc left)
            = (fst (retry_loop c remote (Suc attempt) left),
               [ApiCall t, RetryDelaySleep (IntNum (int_of_digits digits)),
                BackoffSleep (backoff_delay (retry_delay_base c) attempt)]
                 @ snd (retry_loop c remote (Suc attempt) left))"
      using retry_loop_fail_step [where remote = remote and attempt = attempt and left = left,
          OF r assms(7) lt sl] by simp
  }
  {
    assume nlt: "\<not> int attempt < max_retries c - 1"
    show "retry_loop c remote attempt (Suc left)
            = (Raised (ApiError e), [ApiCall t, RetryDelaySleep (IntNum (int_of_digits digits))])"
      using retry_loop_fail_last [where remote = remote and attempt = attempt and left = left,
          OF r assms(7) nlt] by simp
  }
qed

lemma quota_error_facts:
  "str_contains ''429'' quota_error" "str_contains ''RESOURCE_EXHAUSTED'' quota_error"
  "retry_delay_search quota_error = Some ''7''"
  using quota_delay_quota_error by (simp_all add: quota_delay_def split: if_splits)

text \<open>The hypotheses of C4 hold for the quota error of the examples at attempt 0 of 3.\<close>

theorem C4_suggested_delay_witness:
  "quota_then_text 0 = Raises 0 quota_error
   \<and> str_contains ''429'' quota_error \<and> str_contains ''RESOURCE_EXHAUSTED'' quota_error
   \<and> retry_delay_search quota_error = Some ''7''
   \<and> length ''7'' \<le> 4300 \<and> int_of_digits ''7'' < int_to_float_bound
   \<and> int 0 + 1 < int_str_bound
   \<and> int 0 < max_retries example_client - 1
   \<and> backoff_sleepable (retry_delay_base example_client) 0
   \<and> retry_loop example_client quota_then_text 0 (Suc 2)
       = (fst (retry_loop example_client quota_then_text (Suc 0) 2),
          [ApiCall 0, RetryDelaySleep (IntNum (int_of_digits ''7'')),
           BackoffSleep (backoff_delay (retry_delay_base example_client) 0)]
            @ snd (retry_loop example_client quota_then_text (Suc 0) 2))"
proof -
  have r: "quota_then_text 0 = Raises 0 quota_error" by (simp add: quota_then_text_def)
  have l: "length ''7'' \<le> 4300" by simp
  have d: "int_of_digits ''7'' < int_to_float_bound"
    by (rule small_below_int_to_float_bound) (simp add: int_of_digits_def)
  have s: "int 0 + 1 < int_str_bound" by (rule small_below_int_str_bound) simp
  have lt: "int 0 < max_retries example_client - 1" by (simp add: example_client_def)
  have sl: "backoff_sleepable (retry_delay_base example_client) 0"
    using example_backoff_sleepable [of 0] by (simp add: example_client_def)
  note step = C4_suggested_delay_then_backoff [where remote = quota_then_text and attempt = 0
      and c = example_client and left = 2, OF r quota_error_facts l d s, THEN conjunct1, THEN mp,
      OF conjI [OF lt sl]]
  show ?thesis using r quota_error_facts l d s lt sl step by blast
qed

lemma retry_loop_events:
  "Acquire \<notin> set (snd (retry_loop c remote attempt left))
   \<and> Release \<notin> set (snd (retry_loop c remote attempt left))
   \<and> length (filter is_call (snd (retry_loop c remote attempt left))) \<le> left"
proof (induction left arbitrary: attempt)
  case 0
  show ?case by simp
next
  case (Suc left)
  obtain r evs where m: "make_api_call (remote attempt) = (r, evs)"
    by (cases "make_api_call (remote attempt)") auto
  have ev: "Acquire \<notin> set evs \<and> Release \<notin> set evs" and one: "length (filter is_call evs) = 1"
    using make_api_call_events [of "remote attempt"] make_api_call_one_call [of "remote attempt"] m
    by simp_all
  obtain r' evs' where l: "retry_loop c remote (Suc attempt) left = (r', evs')"
    by (cases "retry_loop c remote (Suc attempt) left") auto
  have ih: "Acquire \<notin> set evs' \<and> Release \<notin> set evs' \<and> length (filter is_call evs') \<le> left"
    using Suc.IH [of "Suc attempt"] l by simp
  show ?case
    using m ev one l ih
    by (cases r) (auto split: sum.splits sleep_outcome.splits)
qed

text \<open>Whenever the rate limit is at least 1, a conversion enters the limiter once,
  before its first remote call, and makes at most \<open>max_retries\<close> calls after that
  one entry.\<close>

lemma convert_enters_limiter_once:
  assumes "\<not> below_one (max_rate (rate_limiter c))"
  shows "\<exists>evs. (snd (convert_html_to_markdown c remote) = [Acquire] @ evs @ [Release]
                \<or> snd (convert_html_to_markdown c remote) = [Acquire] @ evs)
          \<and> Acquire \<notin> set evs \<and> Release \<notin> set evs
          \<and> length (filter is_call evs) \<le> nat (max_retries c)"
proof -
  obtain r evs where l: "retry_loop c remote 0 (nat (max_retries c)) = (r, evs)"
    by (cases "retry_loop c remote 0 (nat (max_retries c))") auto
  have "Acquire \<notin> set evs \<and> Release \<notin> set evs
        \<and> length (filter is_call evs) \<le> nat (max_retries c)"
    using retry_loop_events [of c remote 0 "nat (max_retries c)"] l by simp
  moreover have "snd (convert_html_to_markdown c remote) = [Acquire] @ evs @ [Release]
                \<or> snd (convert_html_to_markdown c remote) = [Acquire] @ evs"
    using assms l by (cases r) (simp_all add: convert_html_to_markdown_def)
  ultimately show ?thesis by blast
qed

lemma setting_one_per_minute:
  "setting one_per_minute ''gemini.max_retries'' dflt = dflt"
  "setting one_per_minute ''gemini.retry_delay_base'' dflt = dflt"
  "setting one_per_minute ''processing.rate_limit_per_minute'' dflt = JInt 1"
  by (simp_all add: setting_def Config_get_def one_per_minute_def)

lemma init_one_per_minute: "GeminiAPIClient_init one_per_minute = Some (Inr example_client)"
proof -
  have "(0::int) \<le> 60 * int_to_float_bound - 1 - 1"
    using small_below_int_to_float_bound [of 1] by simp
  then have "\<not> 60 * int_to_float_bound \<le> \<bar>1::int\<bar>" by simp
  then show ?thesis
    by (simp add: GeminiAPIClient_init_def setting_one_per_minute limiter_of_def example_client_def)
qed

text \<open>
  C8 at a failing input: the configuration sets the rate limit to 1, so that the client
  holds the limiter \<^verbatim>\<open>AsyncLimiter(1, 60)\<close>. A conversion whose three attempts fail
  after half a second each enters the limiter once, at time 0, and starts its remote
  calls at 0, 1.5 and 4 seconds: three calls within the first 60 seconds, where the
  claim allows one.
\<close>

theorem C8_retries_pass_by_the_limiter:
  "GeminiAPIClient_init one_per_minute = Some (Inr example_client)
   \<and> max_rate (rate_limiter example_client) = IntNum 1
   \<and> snd (convert_html_to_markdown example_client always_failing)
       = [Acquire, ApiCall (1 / 2), BackoffSleep (FloatNum 1), ApiCall (1 / 2),
          BackoffSleep (FloatNum 2), ApiCall (1 / 2), Release]
   \<and> call_starts 0 (snd (convert_html_to_markdown example_client always_failing)) = [0, 3 / 2, 4]
   \<and> starts_in_window
        (call_starts 0 (snd (convert_html_to_markdown example_client always_failing))) 0 = 3"
proof -
  have r: "max_rate (rate_limiter example_client) = IntNum 1"
    by (simp add: example_client_def)
  have e: "snd (convert_html_to_markdown example_client always_failing)
             = [Acquire, ApiCall (1 / 2), BackoffSleep (FloatNum 1), ApiCall (1 / 2),
                BackoffSleep (FloatNum 2), ApiCall (1 / 2), Release]"
    by (simp add: convert_always_failing)
  have s: "call_starts 0 (snd (convert_html_to_markdown example_client always_failing))
             = [0, 3 / 2, 4]"
    unfolding e by simp
  have w: "starts_in_window
             (call_starts 0 (snd (convert_html_to_markdown example_client always_failing))) 0 = 3"
    unfolding s by (simp add: starts_in_window_def)
  show ?thesis
    using init_one_per_minute r e s w by blast
qed

section \<open>Properties of a run\<close>

text \<open>
  The dictionary of \<open>convert_directory\<close> holds, for a title, the result with that
  title that completed last. When the derived titles of the discovered files are
  pairwise distinct, the ordered results are therefore the results of the files whose
  conversion returned, each file with its own result, in the order of discovery and
  whatever the order of completion. The runs evaluated below have two files with the
  same title.
\<close>

lemma foldl_update_find:
  "foldl (\<lambda>m result. m(fst result \<mapsto> result)) m0 ps t
     = (case find (\<lambda>r. fst r = t) (rev ps) of Some r \<Rightarrow> Some r | None \<Rightarrow> m0 t)"
  by (induction ps arbitrary: m0 rule: rev_induct) auto

lemma file_to_result_find:
  "file_to_result ps t = find (\<lambda>r. fst r = t) (rev ps)"
  by (simp add: file_to_result_def foldl_update_find split: option.splits)

lemma find_Some_member: "find P xs = Some x \<Longrightarrow> x \<in> set xs \<and> P x"
  by (induction xs) (auto split: if_splits)

lemma file_to_result_Some:
  "file_to_result ps t = Some r \<Longrightarrow> r \<in> set ps \<and> fst r = t"
  using find_Some_member [of "\<lambda>r. fst r = t" "rev ps" r] by (simp add: file_to_result_find)

lemma file_to_result_None:
  "file_to_result ps t = None \<longleftrightarrow> (\<forall>r \<in> set ps. fst r \<noteq> t)"
  by (auto simp: file_to_result_find find_None_iff)

lemma set_collect: "set (collect os) = {r. Returned r \<in> set os}"
  by (induction os rule: collect.induct) auto

lemma process_file_title:
  "process_file sub conv w p = Returned r \<Longrightarrow> fst r = clean_filename sub (path_name p)"
  by (auto simp: process_file_def Let_def split: if_splits option.splits outcome.splits)

lemma set_completion_order: "set (completion_order w html_files) = fst ` set html_files"
  by (simp add: completion_order_def)

lemma ordered_results_distinct_titles:
  assumes d: "distinct (map (\<lambda>(p, mtime). clean_filename sub (path_name p)) html_files)"
  shows "ordered_results sub html_files
           (collect (map (process_file sub conv w) (completion_order w html_files)))
         = concat (map (\<lambda>(p, mtime). case process_file sub conv w p of
                                          Returned r \<Rightarrow> [r] | Raised e \<Rightarrow> [] | Never_returns \<Rightarrow> [])
                       html_files)"
proof -
  let ?title = "\<lambda>p. clean_filename sub (path_name p)"
  let ?ps = "collect (map (process_file sub conv w) (completion_order w html_files))"
  have inj: "inj_on ?title (fst ` set html_files)"
  proof (rule inj_onI)
    fix p q assume p: "p \<in> fst ` set html_files" and q: "q \<in> fst ` set html_files"
      and e: "?title p = ?title q"
    have "map (\<lambda>(p, mtime). ?title p) html_files = map ?title (map fst html_files)"
      by (simp add: case_prod_unfold comp_def)
    with d have "distinct (map ?title (map fst html_files))" by (simp only:)
    then have "inj_on ?title (set (map fst html_files))"
      using distinct_map [of ?title "map fst html_files"] by blast
    with p q e show "p = q" by (auto dest: inj_onD)
  qed
  have mem: "r \<in> set ?ps \<longleftrightarrow> (\<exists>q \<in> fst ` set html_files. process_file sub conv w q = Returned r)" for r
  proof -
    have "r \<in> set ?ps \<longleftrightarrow> Returned r \<in> process_file sub conv w ` (fst ` set html_files)"
      by (simp add: set_collect set_completion_order)
    also have "\<dots> \<longleftrightarrow> (\<exists>q \<in> fst ` set html_files. process_file sub conv w q = Returned r)"
      by (metis (no_types, lifting) imageE image_eqI)
    finally show ?thesis .
  qed
  have own: "process_file sub conv w p = Returned r'"
    if p: "p \<in> fst ` set html_files" and s: "file_to_result ?ps (?title p) = Some r'" for p r'
  proof -
    from s have "r' \<in> set ?ps" and t: "fst r' = ?title p" using file_to_result_Some by blast+
    then obtain q where q: "q \<in> fst ` set html_files" and r': "process_file sub conv w q = Returned r'"
      using mem by blast
    have "?title q = ?title p" using process_file_title [OF r'] t by simp
    then have "q = p" using inj p q by (auto dest: inj_onD)
    with r' show ?thesis by simp
  qed
  have each: "(case file_to_result ?ps (?title p) of Some result \<Rightarrow> [result] | None \<Rightarrow> [])
              = (case process_file sub conv w p of
                   Returned r \<Rightarrow> [r] | Raised e \<Rightarrow> [] | Never_returns \<Rightarrow> [])"
    if p: "p \<in> fst ` set html_files" for p
  proof (cases "file_to_result ?ps (?title p)")
    case (Some r')
    with own [OF p Some] show ?thesis by simp
  next
    case None
    have no: "process_file sub conv w p \<noteq> Returned r" for r
    proof
      assume r: "process_file sub conv w p = Returned r"
      then have "r \<in> set ?ps" using p mem by blast
      moreover have "fst r = ?title p" using r by (rule process_file_title)
      ultimately show False using None by (auto simp: file_to_result_None)
    qed
    show ?thesis
    proof (cases "process_file sub conv w p")
      case (Returned r)
      with no show ?thesis by blast
    qed (simp_all add: None)
  qed
  have "map (\<lambda>(file_path, mtime).
                    case file_to_result ?ps (?title file_path) of
                      Some result \<Rightarrow> [result]
                    | None \<Rightarrow> []) html_files
        = map (\<lambda>(p, mtime). case process_file sub conv w p of
                                          Returned r \<Rightarrow> [r] | Raised e \<Rightarrow> [] | Never_returns \<Rightarrow> [])
                       html_files"
  proof (rule map_cong [OF refl])
    fix x assume x: "x \<in> set html_files"
    then have "fst x \<in> fst ` set html_files" by (rule imageI)
    then show "(case x of (file_path, mtime) \<Rightarrow>
                  case file_to_result ?ps (?title file_path) of
                    Some result \<Rightarrow> [result]
                  | None \<Rightarrow> [])
             = (case x of (p, mtime) \<Rightarrow>
                  case process_file sub conv w p of
                    Returned r \<Rightarrow> [r] | Raised e \<Rightarrow> [] | Never_returns \<Rightarrow> [])"
      using each [of "fst x"] by (simp add: case_prod_unfold)
  qed
  then show ?thesis unfolding ordered_results_def by (rule arg_cong [where f = concat])
qed

lemma gather_distinct_titles:
  assumes "distinct (map (\<lambda>(p, mtime). clean_filename sub (path_name p)) html_files)"
    and "gather sub conv w html_files = Returned processed_files"
  shows "ordered_results sub html_files processed_files
         = concat (map (\<lambda>(p, mtime). case process_file sub conv w p of
                                          Returned r \<Rightarrow> [r] | Raised e \<Rightarrow> [] | Never_returns \<Rightarrow> [])
                       html_files)"
proof -
  from assms(2) have "processed_files
      = collect (map (process_file sub conv w) (completion_order w html_files))"
    by (simp add: gather_def Let_def split: if_splits)
  then show ?thesis using ordered_results_distinct_titles [OF assms(1)] by simp
qed

text \<open>The runs of the examples.\<close>

lemma setting_empty: "setting (JDict fmempty) key dflt = dflt"
proof -
  have "split_on CHR ''.'' key \<noteq> []" by (rule split_on_not_Nil)
  then obtain k ks where "split_on CHR ''.'' key = k # ks" by (cases "split_on CHR ''.'' key") auto
  then show ?thesis by (simp add: setting_def Config_get_def)
qed

lemma init_defaults: "HTML2MDConverter_init (JDict fmempty) = Some (Inr default_converter)"
proof -
  have "\<not> 60 * int_to_float_bound \<le> \<bar>875::int\<bar>"
    using small_below_int_to_float_bound [of 875] by simp
  then show ?thesis
    by (simp add: HTML2MDConverter_init_def GeminiAPIClient_init_def setting_empty limiter_of_def
        Semaphore_init_def default_converter_def)
qed

lemma discover_two:
  "discover_html_files (world_of two_files r c)
     = Inr [(''docs/a_b.html'', 1), (''docs/a b.html'', 2)]"
  by (simp add: discover_html_files_def world_of_def two_files_def small_not_above_bounds)

lemma discover_three:
  "discover_html_files (world_of three_files r c)
     = Inr [(''docs/x_y.html'', 1), (''docs/z.html'', 2), (''docs/x y.html'', 3)]"
  by (simp add: discover_html_files_def world_of_def three_files_def small_not_above_bounds)

lemma convert_first_reply:
  "remote 0 = Returns t response \<Longrightarrow>
   convert_html_to_markdown (api_client default_converter) remote
     = (Returned response, [Acquire, ApiCall t, Release])"
  by (simp add: convert_html_to_markdown_def default_converter_def numeral_3_eq_3)

lemma title_a_b: "clean_filename id (path_name ''docs/a_b.html'') = ''a b''"
  by (simp add: clean_filename_def path_stem_def path_name_def replace_underscores_def
      html_unescape_def remove_unsafe_def unsafe_chars_def strip_def is_space_def)

lemma title_a_space_b: "clean_filename id (path_name ''docs/a b.html'') = ''a b''"
  by (simp add: clean_filename_def path_stem_def path_name_def replace_underscores_def
      html_unescape_def remove_unsafe_def unsafe_chars_def strip_def is_space_def)


lemma title_x_y: "clean_filename id (path_name ''docs/x_y.html'') = ''x y''"
  by (simp add: clean_filename_def path_stem_def path_name_def replace_underscores_def
      html_unescape_def remove_unsafe_def unsafe_chars_def strip_def is_space_def)

lemma title_x_space_y: "clean_filename id (path_name ''docs/x y.html'') = ''x y''"
  by (simp add: clean_filename_def path_stem_def path_name_def replace_underscores_def
      html_unescape_def remove_unsafe_def unsafe_chars_def strip_def is_space_def)

lemma title_z: "clean_filename id (path_name ''docs/z.html'') = ''z''"
  by (simp add: clean_filename_def path_stem_def path_name_def replace_underscores_def
      html_unescape_def remove_unsafe_def unsafe_chars_def strip_def is_space_def)

lemma semaphore_default: "\<not> is_zero (semaphore default_converter)"
  by (simp add: default_converter_def)

lemma process_file_own_text:
  "process_file id default_converter (world_of two_files own_text in_order) ''docs/a_b.html''
     = Returned (''a b'', Some ''# first'')"
  "process_file id default_converter (world_of two_files own_text in_order) ''docs/a b.html''
     = Returned (''a b'', Some ''# second'')"
  by (simp_all add: process_file_def semaphore_default world_of_def title_a_b title_a_space_b
      convert_first_reply [where t = 1] own_text_def)

lemma convert_failing:
  "convert_html_to_markdown (api_client default_converter) (\<lambda>attempt. Raises (1 / 2) ''503 UNAVAILABLE'')
     = (Raised (ApiError ''503 UNAVAILABLE''),
        [Acquire, ApiCall (1 / 2), BackoffSleep (FloatNum 1), ApiCall (1 / 2),
         BackoffSleep (FloatNum 2), ApiCall (1 / 2), Release])"
  by (simp add: convert_html_to_markdown_def default_converter_def quota_delay_def
      numeral_3_eq_3 small_not_above_bounds float_value_small)

lemma first_fails_first: "first_fails ''docs/a_b.html'' = (\<lambda>attempt. Raises (1 / 2) ''503 UNAVAILABLE'')"
  by (rule ext) (simp add: first_fails_def)

lemma process_file_first_fails:
  "process_file id default_converter (world_of two_files first_fails in_order) ''docs/a_b.html''
     = Raised (ApiError ''503 UNAVAILABLE'')"
  by (simp add: process_file_def semaphore_default world_of_def first_fails_first convert_failing)

lemma process_file_second_succeeds:
  "process_file id default_converter (world_of two_files first_fails in_order) ''docs/a b.html''
     = Returned (''a b'', Some ''# second'')"
proof -
  have "first_fails ''docs/a b.html'' 0 = Returns 1 (Some ''# second'')"
    by (simp add: first_fails_def)
  then show ?thesis
    by (simp add: process_file_def semaphore_default world_of_def title_a_space_b
        convert_first_reply [where t = 1])
qed

lemma order_two:
  "completion_order (world_of two_files r in_order) [(''docs/a_b.html'', 1), (''docs/a b.html'', 2)]
     = [''docs/a_b.html'', ''docs/a b.html'']"
  by (simp add: completion_order_def world_of_def in_order_def)

lemma order_three:
  "completion_order (world_of three_files r third_first_second)
       [(''docs/x_y.html'', 1), (''docs/z.html'', 2), (''docs/x y.html'', 3)]
     = [''docs/x y.html'', ''docs/x_y.html'', ''docs/z.html'']"
  by (simp add: completion_order_def world_of_def third_first_second_def)

lemma check_new_output:
  "check_output_file (world_of m r c) p = Inr (Some p)"
  by (simp add: check_output_file_def world_of_def)

lemma join_docs: "path_join ''docs'' ''output.md'' = ''docs/output.md''"
  by (simp add: path_join_def)

lemma generate_default:
  "generate_output default_converter (world_of m r c) rs p
     = (case write_results True (JStr ''---'') rs of (e, pieces) \<Rightarrow> (e, Some (p, pieces)))"
  by (simp add: generate_output_def default_converter_def setting_empty world_of_def)

lemma strip_hash: "strip ''# first'' = ''# first''" "strip ''# second'' = ''# second''"
  "strip ''# third'' = ''# third''"
  by (simp_all add: strip_def is_space_def)


lemma gather_own_text:
  "gather id default_converter (world_of two_files own_text in_order)
       [(''docs/a_b.html'', 1), (''docs/a b.html'', 2)]
     = Returned [(''a b'', Some ''# first''), (''a b'', Some ''# second'')]"
  by (simp add: gather_def order_two process_file_own_text)

lemma gather_first_fails:
  "gather id default_converter (world_of two_files first_fails in_order)
       [(''docs/a_b.html'', 1), (''docs/a b.html'', 2)]
     = Returned [(''a b'', Some ''# second'')]"
  by (simp add: gather_def order_two process_file_first_fails process_file_second_succeeds)

lemma ordered_two_both:
  "ordered_results id [(''docs/a_b.html'', 1), (''docs/a b.html'', 2)]
       [(''a b'', Some ''# first''), (''a b'', Some ''# second'')]
     = [(''a b'', Some ''# second''), (''a b'', Some ''# second'')]"
  by (simp add: ordered_results_def file_to_result_def title_a_b title_a_space_b)

lemma ordered_two_one:
  "ordered_results id [(''docs/a_b.html'', 1), (''docs/a b.html'', 2)]
       [(''a b'', Some ''# second'')]
     = [(''a b'', Some ''# second''), (''a b'', Some ''# second'')]"
  by (simp add: ordered_results_def file_to_result_def title_a_b title_a_space_b)

text \<open>
  C2 at a failing input. The files \<^verbatim>\<open>a_b.html\<close> and \<^verbatim>\<open>a b.html\<close> are both
  converted, each to a text of its own, and both have the derived title \<^verbatim>\<open>a b\<close>. The
  dictionary keeps the result that completed last, and the ordered sequence holds
  that result twice: the result of the first file is lost and the result of the
  second one is matched to both files.
\<close>

theorem C2_colliding_titles:
  "process_file id default_converter (world_of two_files own_text in_order) ''docs/a_b.html''
     = Returned (''a b'', Some ''# first'')
   \<and> process_file id default_converter (world_of two_files own_text in_order) ''docs/a b.html''
     = Returned (''a b'', Some ''# second'')
   \<and> convert_directory id default_converter (world_of two_files own_text in_order)
         ''docs'' ''output.md''
     = (Returned (Completed ''docs/output.md''
                    [(''a b'', Some ''# second''), (''a b'', Some ''# second'')] 2),
        Some (''docs/output.md'',
              [Header ''a b'', Body ''# second'', Blank, Separator (JStr ''---''),
               Header ''a b'', Body ''# second'', Blank]))"
  by (simp add: process_file_own_text convert_directory_def discover_two join_docs
      check_new_output gather_own_text ordered_two_both generate_default strip_hash)

text \<open>
  C6 at a failing input, from the same defect as C2. The conversion of
  \<^verbatim>\<open>a_b.html\<close> fails at each of its three attempts, that of \<^verbatim>\<open>a b.html\<close>
  succeeds, and both files have the derived title \<^verbatim>\<open>a b\<close>. The failed file is
  found in the dictionary under the title of the other one: the output has a section
  at its place, and the run reports 2 files processed out of 2 found.
\<close>

theorem C6_failed_file_with_colliding_title:
  "process_file id default_converter (world_of two_files first_fails in_order) ''docs/a_b.html''
     = Raised (ApiError ''503 UNAVAILABLE'')
   \<and> process_file id default_converter (world_of two_files first_fails in_order) ''docs/a b.html''
     = Returned (''a b'', Some ''# second'')
   \<and> convert_directory id default_converter (world_of two_files first_fails in_order)
         ''docs'' ''output.md''
     = (Returned (Completed ''docs/output.md''
                    [(''a b'', Some ''# second''), (''a b'', Some ''# second'')] 2),
        Some (''docs/output.md'',
              [Header ''a b'', Body ''# second'', Blank, Separator (JStr ''---''),
               Header ''a b'', Body ''# second'', Blank]))
   \<and> processed (Completed ''docs/output.md''
                   [(''a b'', Some ''# second''), (''a b'', Some ''# second'')] 2) = 2"
  by (simp add: process_file_first_fails process_file_second_succeeds convert_directory_def
      discover_two join_docs check_new_output gather_first_fails ordered_two_one
      generate_default strip_hash processed_def)

lemma process_file_three:
  "process_file id default_converter (world_of three_files text_of_each third_first_second)
       ''docs/x_y.html'' = Returned (''x y'', Some ''# first'')"
  "process_file id default_converter (world_of three_files text_of_each third_first_second)
       ''docs/z.html'' = Returned (''z'', Some ''# second'')"
  "process_file id default_converter (world_of three_files text_of_each third_first_second)
       ''docs/x y.html'' = Returned (''x y'', Some ''# third'')"
  by (simp_all add: process_file_def semaphore_default world_of_def title_x_y title_z
      title_x_space_y convert_first_reply [where t = 1] text_of_each_def)

lemma gather_three:
  "gather id default_converter (world_of three_files text_of_each third_first_second)
       [(''docs/x_y.html'', 1), (''docs/z.html'', 2), (''docs/x y.html'', 3)]
     = Returned [(''x y'', Some ''# third''), (''x y'', Some ''# first''), (''z'', Some ''# second'')]"
  by (simp add: gather_def order_three process_file_three)

lemma ordered_three:
  "ordered_results id [(''docs/x_y.html'', 1), (''docs/z.html'', 2), (''docs/x y.html'', 3)]
       [(''x y'', Some ''# third''), (''x y'', Some ''# first''), (''z'', Some ''# second'')]
     = [(''x y'', Some ''# first''), (''z'', Some ''# second''), (''x y'', Some ''# first'')]"
  by (simp add: ordered_results_def file_to_result_def title_x_y title_z title_x_space_y)

text \<open>
  C1 at a failing input, from the same defect as C2. Three files with modification
  times 1, 2 and 3 complete in the order third, first, second; the first and the third
  have the same derived title. The output lists the result of the first file, that of
  the second, and the result of the first file again: the result of the third file is
  not in the third place.
\<close>

theorem C1_order_with_colliding_titles:
  "discover_html_files (world_of three_files text_of_each third_first_second)
     = Inr [(''docs/x_y.html'', 1), (''docs/z.html'', 2), (''docs/x y.html'', 3)]
   \<and> completion_order (world_of three_files text_of_each third_first_second)
         [(''docs/x_y.html'', 1), (''docs/z.html'', 2), (''docs/x y.html'', 3)]
     = [''docs/x y.html'', ''docs/x_y.html'', ''docs/z.html'']
   \<and> process_file id default_converter (world_of three_files text_of_each third_first_second)
         ''docs/x y.html'' = Returned (''x y'', Some ''# third'')
   \<and> convert_directory id default_converter
         (world_of three_files text_of_each third_first_second) ''docs'' ''output.md''
     = (Returned (Completed ''docs/output.md''
                    [(''x y'', Some ''# first''), (''z'', Some ''# second''),
                     (''x y'', Some ''# first'')] 3),
        Some (''docs/output.md'',
              [Header ''x y'', Body ''# first'', Blank, Separator (JStr ''---''),
               Header ''z'', Body ''# second'', Blank, Separator (JStr ''---''),
               Header ''x y'', Body ''# first'', Blank]))"
  by (simp add: discover_three order_three process_file_three convert_directory_def join_docs
      check_new_output gather_three ordered_three generate_default strip_hash)

section \<open>Properties of main\<close>

lemma prompt_loop_cancel:
  assumes "\<forall>l \<in> set invalid. strip l \<noteq> ''1'' \<and> strip l \<noteq> ''2'' \<and> strip l \<noteq> ''3''"
    and "strip line = ''3''"
  shows "prompt_loop output_path now (invalid @ line # rest) = Inr None"
  using assms by (induction invalid) simp_all

text \<open>
  C9, as stated, fails: the output file exists, the user answers the prompt with an
  invalid line and then with 3, and the program ends with exit status 0, not 1;
  nothing is converted or written.
\<close>

theorem C9_cancel_exit_status_counterexample:
  "main id plain_args plain_host cancelling_world = Some (Exit 0, Some (Returned Cancelled, None))"
proof -
  have d: "discover_html_files cancelling_world = Inr [(''docs/z.html'', 2)]"
    by (simp add: discover_html_files_def cancelling_world_def small_not_above_bounds)
  have c: "check_output_file cancelling_world (path_join ''docs'' ''output.md'') = Inr None"
    by (simp add: check_output_file_def cancelling_world_def strip_def is_space_def)
  have r: "convert_directory id default_converter cancelling_world ''docs'' ''output.md''
             = (Returned Cancelled, None)"
    by (simp add: convert_directory_def d c)
  show ?thesis
    by (simp add: main_def plain_host_def plain_args_def resolve_api_key_def missing_key_def
        override_def init_defaults r)
qed

text \<open>
  C9, amended. When \<^verbatim>\<open>main\<close> reaches the run (the configuration is loaded, logging
  is set up, an API key is present, the override and the construction of the
  converter succeed), HTML files are found, the resolved output path exists and the
  first valid choice that the user enters at the prompt is 3, then the run returns
  without converting or writing anything and the program ends with exit status 0.
\<close>

theorem C9_cancel_exits_normally:
  assumes "config_file h = Loaded cfg" and "logging_raises h = None"
    and "\<not> missing_key (resolve_api_key (api_key a) (env_api_key h))"
    and "override cfg (concurrent a) = Inr cfg'"
    and "HTML2MDConverter_init cfg' = Some (Inr conv)"
    and "discover_html_files w = Inr html_files" and "html_files \<noteq> []"
    and "path_exists w (path_join (directory a) (output_name a))"
    and "stdin w = invalid @ line # rest"
    and "\<forall>l \<in> set invalid. strip l \<noteq> ''1'' \<and> strip l \<noteq> ''2'' \<and> strip l \<noteq> ''3''"
    and "strip line = ''3''"
  shows "main charref_sub a h w = Some (Exit 0, Some (Returned Cancelled, None))"
proof -
  have c: "check_output_file w (path_join (directory a) (output_name a)) = Inr None"
    using assms(8,9) prompt_loop_cancel [OF assms(10,11)]
    by (simp add: check_output_file_def)
  have r: "convert_directory charref_sub conv w (directory a) (output_name a)
             = (Returned Cancelled, None)"
    using assms(6,7) c by (simp add: convert_directory_def)
  show ?thesis
    using assms(1-5) r by (simp add: main_def)
qed

text \<open>The hypotheses of C9 hold for the default configuration and the world in which
  the output file exists and the user enters \<^verbatim>\<open>x\<close> and then \<^verbatim>\<open>3\<close> between
  spaces.\<close>

theorem C9_cancel_witness:
  "config_file plain_host = Loaded (JDict fmempty) \<and> logging_raises plain_host = None
   \<and> \<not> missing_key (resolve_api_key (api_key plain_args) (env_api_key plain_host))
   \<and> override (JDict fmempty) (concurrent plain_args) = Inr (JDict fmempty)
   \<and> HTML2MDConverter_init (JDict fmempty) = Some (Inr default_converter)
   \<and> discover_html_files cancelling_world = Inr [(''docs/z.html'', 2)]
   \<and> path_exists cancelling_world (path_join (directory plain_args) (output_name plain_args))
   \<and> stdin cancelling_world = [''x''] @ '' 3 '' # []
   \<and> strip ''x'' = ''x'' \<and> strip '' 3 '' = ''3''
   \<and> main (\<lambda>s. s) plain_args plain_host cancelling_world
       = Some (Exit 0, Some (Returned Cancelled, None))"
proof -
  have 1: "config_file plain_host = Loaded (JDict fmempty)"
    and 2: "logging_raises plain_host = None"
    and 3: "\<not> missing_key (resolve_api_key (api_key plain_args) (env_api_key plain_host))"
    and 4: "override (JDict fmempty) (concurrent plain_args) = Inr (JDict fmempty)"
    by (simp_all add: plain_host_def plain_args_def resolve_api_key_def missing_key_def
        override_def)
  have 6: "discover_html_files cancelling_world = Inr [(''docs/z.html'', 2)]"
    by (simp add: discover_html_files_def cancelling_world_def small_not_above_bounds)
  have 7: "[(''docs/z.html'', 2::rat)] \<noteq> []" by simp
  have 8: "path_exists cancelling_world (path_join (directory plain_args) (output_name plain_args))"
    by (simp add: cancelling_world_def)
  have 9: "stdin cancelling_world = [''x''] @ '' 3 '' # []"
    by (simp add: cancelling_world_def)
  have sx: "strip ''x'' = ''x''" and s3: "strip '' 3 '' = ''3''"
    by (simp_all add: strip_def is_space_def)
  have 10: "\<forall>l \<in> set [''x'']. strip l \<noteq> ''1'' \<and> strip l \<noteq> ''2'' \<and> strip l \<noteq> ''3''"
    by (simp add: sx)
  note m = C9_cancel_exits_normally [OF 1 2 3 4 init_defaults 6 7 8 9 10 s3, of "\<lambda>s. s"]
  show ?thesis using 1 2 3 4 init_defaults 6 8 9 sx s3 m by blast
qed


text \<open>
  C10, as stated, fails when the configuration has a \<open>processing\<close> entry that is not
  a mapping: with \<^verbatim>\<open>{"processing": 5}\<close> and \<^verbatim>\<open>--concurrent 3\<close> there is no
  top-level \<open>processing\<close> mapping, and the override raises \<^verbatim>\<open>TypeError\<close>, not
  \<^verbatim>\<open>KeyError\<close>.
\<close>

theorem C10_not_a_mapping_counterexample:
  "main id concurrent_args odd_host cancelling_world = Some (Uncaught TypeError, None)"
  by (simp add: main_def odd_host_def concurrent_args_def resolve_api_key_def missing_key_def
      override_def)

text \<open>
  C10, amended. Let the loaded configuration be an object that has no key
  \<open>processing\<close>, and let \<^verbatim>\<open>main\<close> reach the override (logging is set up and an
  API key is present). With a nonzero \<^verbatim>\<open>--concurrent\<close> the override raises
  \<^verbatim>\<open>KeyError\<close>, which nothing catches, before the converter is built and before
  any conversion. With \<^verbatim>\<open>--concurrent 0\<close>, or without the option, the override
  leaves every configuration unchanged.
\<close>

theorem C10_override_raises_KeyError:
  assumes "config_file h = Loaded (JDict d)" and "fmlookup d ''processing'' = None"
    and "logging_raises h = None"
    and "\<not> missing_key (resolve_api_key (api_key a) (env_api_key h))"
  shows "(\<forall>n. concurrent a = Some n \<and> n \<noteq> 0 \<longrightarrow>
            main charref_sub a h w = Some (Uncaught (KeyError ''processing''), None))
       \<and> override cfg (Some 0) = Inr cfg
       \<and> override cfg None = Inr cfg"
  using assms by (simp add: main_def override_def)

text \<open>The hypotheses of C10 hold for the empty configuration object and the command
  line with \<^verbatim>\<open>--concurrent 3\<close>.\<close>

theorem C10_override_witness:
  "config_file plain_host = Loaded (JDict fmempty)
   \<and> fmlookup (fmempty :: (string, json) fmap) ''processing'' = None
   \<and> logging_raises plain_host = None
   \<and> \<not> missing_key (resolve_api_key (api_key concurrent_args) (env_api_key plain_host))
   \<and> concurrent concurrent_args = Some 3
   \<and> main (\<lambda>s. s) concurrent_args plain_host cancelling_world
       = Some (Uncaught (KeyError ''processing''), None)"
proof -
  have 1: "config_file plain_host = Loaded (JDict fmempty)"
    and 2: "fmlookup (fmempty :: (string, json) fmap) ''processing'' = None"
    and 3: "logging_raises plain_host = None"
    and 4: "\<not> missing_key (resolve_api_key (api_key concurrent_args) (env_api_key plain_host))"
    and 5: "concurrent concurrent_args = Some 3"
    by (simp_all add: plain_host_def concurrent_args_def resolve_api_key_def missing_key_def)
  have 6: "(3::int) \<noteq> 0" by simp
  note m = C10_override_raises_KeyError [OF 1 2 3 4, of "\<lambda>s. s" cancelling_world,
      THEN conjunct1, THEN spec, THEN mp, OF conjI [OF 5 6]]
  show ?thesis using 1 2 3 4 5 m by blast
qed

end
